theory Spec2Isabelle
  imports Main "HOL-Library.Sublist"
begin

section \<open>JavaScript values\<close>

text \<open>
  The tools receive their arguments as parsed JSON, with no schema validation between the
  request and \<open>execute\<close>. A property that is absent reads as \<open>undefined\<close>, which
  is \<open>None\<close> here. An object is the list of its own properties, each key once. Numbers
  are the integral ones, and a string is a list of 8-bit characters.
\<close>

datatype jsval =
    JNull
  | JBool bool
  | JNum int
  | JStr string
  | JArr "jsval list"
  | JObj "(string \<times> jsval) list"

text \<open>Truthiness, as \<open>if (v)\<close>, \<open>!v\<close> and \<open>a || b\<close> read it.\<close>

fun truthy :: "jsval \<Rightarrow> bool" where
  "truthy JNull = False"
| "truthy (JBool b) = b"
| "truthy (JNum n) = (n \<noteq> 0)"
| "truthy (JStr s) = (s \<noteq> [])"
| "truthy (JArr xs) = True"
| "truthy (JObj ps) = True"

fun truthyO :: "jsval option \<Rightarrow> bool" where
  "truthyO None = False"
| "truthyO (Some v) = truthy v"

text \<open>\<open>Array.prototype.join\<close> on strings.\<close>

fun join :: "string \<Rightarrow> string list \<Rightarrow> string" where
  "join sep [] = []"
| "join sep [x] = x"
| "join sep (x # y # ys) = x @ sep @ join sep (y # ys)"

fun showNat :: "nat \<Rightarrow> string" where
  "showNat n = (if n < 10 then [''0123456789'' ! n]
                else showNat (n div 10) @ [''0123456789'' ! (n mod 10)])"

declare showNat.simps [simp del]

definition showInt :: "int \<Rightarrow> string" where
  "showInt i = (if i < 0 then ''-'' @ showNat (nat (- i)) else showNat (nat i))"

text \<open>\<open>String(v)\<close>, which is also what a template literal \<open>`${v}`\<close> inserts.\<close>

fun jsString :: "jsval \<Rightarrow> string" where
  "jsString JNull = ''null''"
| "jsString (JBool b) = (if b then ''true'' else ''false'')"
| "jsString (JNum n) = showInt n"
| "jsString (JStr s) = s"
| "jsString (JArr xs) = join '','' (map (\<lambda>v. if v = JNull then [] else jsString v) xs)"
| "jsString (JObj ps) = ''[object Object]''"

fun tmpl :: "jsval option \<Rightarrow> string" where
  "tmpl None = ''undefined''"
| "tmpl (Some v) = jsString v"

text \<open>Property read on a parsed JSON object.\<close>

definition getProp :: "(string \<times> jsval) list \<Rightarrow> string \<Rightarrow> jsval option" where
  "getProp obj k = map_of obj k"

text \<open>The characters inside string literals that the term syntax cannot spell.\<close>

definition sq :: string where "sq = [CHR 0x27]"
definition dq :: string where "dq = [CHR 0x22]"
definition nl :: string where "nl = [CHR 0x0A]"

section \<open>Exceptions and result envelopes\<close>

datatype ErrorCode = MethodNotFound | InvalidParams

text \<open>
  What a \<open>throw\<close> can carry: an \<open>Error\<close> with its message, a \<open>TypeError\<close> raised by the
  runtime, an \<open>McpError\<close> built from a code and a text, or a value that is no
  \<open>Error\<close> at all.
\<close>

datatype exn =
    Error string
  | TypeError string
  | McpError ErrorCode string
  | Thrown jsval

text \<open>
  \<open>error instanceof Error ? error.message : String(error)\<close>. The message of an
  \<open>McpError\<close> is made by the protocol SDK's constructor from the code and the text;
  that constructor is the parameter \<open>mcpMessage\<close>.
\<close>

fun errorMessage :: "(ErrorCode \<Rightarrow> string \<Rightarrow> string) \<Rightarrow> exn \<Rightarrow> string" where
  "errorMessage mcpMessage (Error m) = m"
| "errorMessage mcpMessage (TypeError m) = m"
| "errorMessage mcpMessage (McpError c m) = mcpMessage c m"
| "errorMessage mcpMessage (Thrown v) = jsString v"

text \<open>The SDK's own constructor: \<open>super(`MCP error ${code}: ${message}`)\<close>.\<close>

fun codeNumber :: "ErrorCode \<Rightarrow> int" where
  "codeNumber MethodNotFound = - 32601"
| "codeNumber InvalidParams = - 32602"

definition sdkMessage :: "ErrorCode \<Rightarrow> string \<Rightarrow> string" where
  "sdkMessage c m = ''MCP error '' @ showInt (codeNumber c) @ '': '' @ m"

datatype ContentBlock = TextBlock string

record ToolOutput =
  content :: "ContentBlock list"
  isError :: "bool option"

definition okOutput :: "string \<Rightarrow> ToolOutput" where
  "okOutput t = \<lparr>content = [TextBlock t], isError = None\<rparr>"

definition errOutput :: "string \<Rightarrow> ToolOutput" where
  "errOutput t = \<lparr>content = [TextBlock t], isError = Some True\<rparr>"

fun blockText :: "ContentBlock \<Rightarrow> string" where
  "blockText (TextBlock t) = t"

section \<open>Connection string resolution (index.ts)\<close>

text \<open>
  The command line options and the environment the process was started with.
\<close>

record settings =
  cliConnectionString :: "string option"
  cliToolsConfig :: "string option"
  envConnectionString :: "string option"

definition noConnectionStringText :: string where
  "noConnectionStringText =
     ''No connection string provided. Provide one in the tool arguments, via the --connection-string CLI option, or set the POSTGRES_CONNECTION_STRING environment variable.''"

definition getConnectionString :: "settings \<Rightarrow> jsval option \<Rightarrow> exn + jsval" where
  "getConnectionString st connectionStringArg =
     (if truthyO connectionStringArg then Inr (the connectionStringArg)
      else if truthyO (map_option JStr (cliConnectionString st))
           then Inr (JStr (the (cliConnectionString st)))
      else if truthyO (map_option JStr (envConnectionString st))
           then Inr (JStr (the (envConnectionString st)))
      else Inl (McpError InvalidParams noConnectionStringText))"

section \<open>Tool descriptors and the server (index.ts)\<close>

datatype zod = ZString | ZBoolean | ZEnum "string list" | ZArray zod | ZOptional zod

type_synonym args = "(string \<times> jsval) list option"

type_synonym GetConnectionStringFn = "jsval option \<Rightarrow> exn + jsval"

record 'w PostgresTool =
  name :: string
  description :: string
  inputSchema :: "(string \<times> zod) list"
  execute :: "args \<Rightarrow> GetConnectionStringFn \<Rightarrow> 'w \<Rightarrow> (exn + ToolOutput) \<times> 'w"

text \<open>
  \<open>enabledToolsMap\<close> is a plain object filled by \<open>acc[tool.name] = tool\<close> and read by
  \<open>this.enabledToolsMap[toolName]\<close>. A read that finds no own property goes on to the
  prototype chain, so the model keeps the own properties and the prototype apart.
  Assigning to \<open>__proto__\<close> makes the assigned object the prototype and creates no own
  property.
\<close>

record 'w toolsMap =
  own :: "(string \<times> 'w PostgresTool) list"
  proto :: "'w PostgresTool option"

definition emptyMap :: "'w toolsMap" where
  "emptyMap = \<lparr>own = [], proto = None\<rparr>"

definition assign :: "'w toolsMap \<Rightarrow> 'w PostgresTool \<Rightarrow> 'w toolsMap" where
  "assign acc tool =
     (if name tool = ''__proto__'' then acc\<lparr>proto := Some tool\<rparr>
      else acc\<lparr>own := (name tool, tool) # own acc\<rparr>)"

definition buildMap :: "'w PostgresTool list \<Rightarrow> 'w toolsMap" where
  "buildMap tools = foldl assign emptyMap tools"

text \<open>The properties every plain object inherits from \<open>Object.prototype\<close>.\<close>

definition objectPrototypeKeys :: "string list" where
  "objectPrototypeKeys =
     [''constructor'', ''hasOwnProperty'', ''isPrototypeOf'', ''propertyIsEnumerable'',
      ''toLocaleString'', ''toString'', ''valueOf'', ''__defineGetter__'',
      ''__defineSetter__'', ''__lookupGetter__'', ''__lookupSetter__'']"

text \<open>
  What a read of the map yields: nothing, a tool descriptor, or some other value, of
  which only the truthiness matters (it has no callable \<open>execute\<close>).
\<close>

datatype 'w looked = Undefined | ToolObj "'w PostgresTool" | OtherValue bool

definition inherited :: "string \<Rightarrow> 'w looked" where
  "inherited k = (if k \<in> set objectPrototypeKeys then OtherValue True else Undefined)"

definition lookupTool :: "'w toolsMap \<Rightarrow> string \<Rightarrow> 'w looked" where
  "lookupTool m k =
     (case map_of (own m) k of
        Some t \<Rightarrow> ToolObj t
      | None \<Rightarrow>
         (case proto m of
            None \<Rightarrow> (if k = ''__proto__'' then OtherValue True else inherited k)
          | Some p \<Rightarrow>
              if k = ''__proto__'' then ToolObj p
              else if k = ''name'' then OtherValue (name p \<noteq> [])
              else if k = ''description'' then OtherValue (description p \<noteq> [])
              else if k = ''inputSchema'' \<or> k = ''execute'' then OtherValue True
              else inherited k))"

fun truthyLooked :: "'w looked \<Rightarrow> bool" where
  "truthyLooked Undefined = False"
| "truthyLooked (ToolObj t) = True"
| "truthyLooked (OtherValue b) = b"

record 'w PostgreSQLServer =
  availableToolsList :: "'w PostgresTool list"
  enabledTools :: "'w PostgresTool list"
  enabledToolsMap :: "'w toolsMap"

datatype logline = ConsoleError string | ConsoleWarn string

text \<open>
  \<open>config && Array.isArray(config.enabledTools) && config.enabledTools.every(t => typeof t === 'string')\<close>,
  returning the names when the test passes.
\<close>

fun isJStr :: "jsval \<Rightarrow> bool" where
  "isJStr (JStr s) = True"
| "isJStr v = False"

fun enabledToolsOf :: "jsval \<Rightarrow> string list option" where
  "enabledToolsOf (JObj ps) =
     (case getProp ps ''enabledTools'' of
        Some (JArr xs) \<Rightarrow> if list_all isJStr xs then Some (map jsString xs) else None
      | _ \<Rightarrow> None)"
| "enabledToolsOf v = None"

text \<open>The elements of \<open>new Set(xs)\<close> in iteration order: first occurrences, in order.\<close>

definition setOrder :: "string list \<Rightarrow> string list" where
  "setOrder xs = rev (remdups (rev xs))"

definition infoLoaded :: "string \<Rightarrow> 'w PostgresTool list \<Rightarrow> string" where
  "infoLoaded path toolsToEnable =
     ''[MCP Info] Loaded tools configuration from '' @ path @ ''. Enabled tools: ''
       @ join '', '' (map name toolsToEnable)"

definition warnNotFound :: "string \<Rightarrow> string" where
  "warnNotFound requestedName =
     ''[MCP Warning] Tool '' @ dq @ requestedName @ dq
       @ '' specified in config file but not found in available tools.''"

definition warnInvalid :: "string \<Rightarrow> string" where
  "warnInvalid path =
     ''[MCP Warning] Invalid tools configuration file format at '' @ path @ ''.''"

definition warnUnreadable :: "string \<Rightarrow> string \<Rightarrow> string" where
  "warnUnreadable path msg =
     ''[MCP Warning] Could not read or parse tools configuration file at '' @ path
       @ ''. Error: '' @ msg @ ''.''"

text \<open>
  \<open>loadAndFilterTools\<close>. Reading and parsing the file is the parameter \<open>readJson\<close>: the
  parsed value, or the message of what \<open>fs.readFileSync\<close> or \<open>JSON.parse\<close> threw. The
  result is the pair of tools to enable and the console lines written.
\<close>

definition selectTools ::
  "(string \<Rightarrow> string + jsval) \<Rightarrow> settings \<Rightarrow> 'w PostgresTool list
     \<Rightarrow> 'w PostgresTool list \<times> logline list" where
  "selectTools readJson st available =
     (if truthyO (map_option JStr (cliToolsConfig st)) then
        (let toolsConfigPath = the (cliToolsConfig st) in
         case readJson toolsConfigPath of
           Inl msg \<Rightarrow> (available, [ConsoleError (warnUnreadable toolsConfigPath msg)])
         | Inr config \<Rightarrow>
            (case enabledToolsOf config of
               Some names \<Rightarrow>
                 (let toolsToEnable = filter (\<lambda>tool. name tool \<in> set names) available in
                  (toolsToEnable,
                   ConsoleError (infoLoaded toolsConfigPath toolsToEnable)
                     # map (\<lambda>n. ConsoleWarn (warnNotFound n))
                         (filter (\<lambda>requestedName.
                                    \<not> list_ex (\<lambda>tool. name tool = requestedName) available)
                                 (setOrder names))))
             | None \<Rightarrow> (available, [ConsoleError (warnInvalid toolsConfigPath)])))
      else
        (available,
         [ConsoleError
            (if length available > 0
             then ''[MCP Info] No tools configuration file provided. All available tools will be enabled.''
             else ''[MCP Info] No tools configuration file provided and no tools loaded into availableToolsList.'')]))"

definition loadAndFilterTools ::
  "(string \<Rightarrow> string + jsval) \<Rightarrow> settings \<Rightarrow> 'w PostgreSQLServer
     \<Rightarrow> 'w PostgreSQLServer \<times> logline list" where
  "loadAndFilterTools readJson st s =
     (let (toolsToEnable, logs) = selectTools readJson st (availableToolsList s) in
      (s\<lparr>enabledTools := toolsToEnable, enabledToolsMap := buildMap toolsToEnable\<rparr>, logs))"

text \<open>The constructor, and \<open>run\<close>, which filters once more before connecting.\<close>

definition newServer ::
  "(string \<Rightarrow> string + jsval) \<Rightarrow> settings \<Rightarrow> 'w PostgresTool list
     \<Rightarrow> 'w PostgreSQLServer \<times> logline list" where
  "newServer readJson st initialTools =
     loadAndFilterTools readJson st
       \<lparr>availableToolsList = initialTools, enabledTools = [], enabledToolsMap = emptyMap\<rparr>"

definition run ::
  "(string \<Rightarrow> string + jsval) \<Rightarrow> settings \<Rightarrow> 'w PostgreSQLServer
     \<Rightarrow> 'w PostgreSQLServer \<times> logline list" where
  "run readJson st s =
     (let (s', logs) = loadAndFilterTools readJson st s in
      (s', (if length (availableToolsList s) = 0 \<and> \<not> truthyO (map_option JStr (cliToolsConfig st))
            then [ConsoleWarn ''[MCP Warning] No tools loaded and no tools config provided. Server will start with no active tools.'']
            else []) @ logs))"

definition startServer ::
  "(string \<Rightarrow> string + jsval) \<Rightarrow> settings \<Rightarrow> 'w PostgresTool list \<Rightarrow> 'w PostgreSQLServer" where
  "startServer readJson st initialTools =
     fst (run readJson st (fst (newServer readJson st initialTools)))"

text \<open>
  The two request handlers. \<open>zodToJsonSchema\<close> is the parameter \<open>toJson\<close>.
\<close>

record 'j descriptor =
  d_name :: string
  d_description :: string
  d_inputSchema :: 'j

definition listTools ::
  "((string \<times> zod) list \<Rightarrow> 'j) \<Rightarrow> 'w PostgreSQLServer \<Rightarrow> 'j descriptor list" where
  "listTools toJson s =
     map (\<lambda>tool. \<lparr>d_name = name tool, d_description = description tool,
                   d_inputSchema = toJson (inputSchema tool)\<rparr>) (enabledTools s)"

definition notEnabledText :: "string \<Rightarrow> string" where
  "notEnabledText toolName =
     ''Tool '' @ dq @ toolName @ dq
       @ '' is available but not enabled by the current server configuration.''"

definition notExistText :: "string \<Rightarrow> string" where
  "notExistText toolName =
     ''Tool '' @ sq @ toolName @ sq @ '' is not enabled or does not exist.''"

text \<open>The \<open>try\<close> block of the call handler: \<open>Inl\<close> is what it throws.\<close>

definition handlerBody ::
  "settings \<Rightarrow> 'w PostgreSQLServer \<Rightarrow> string \<Rightarrow> args \<Rightarrow> 'w \<Rightarrow> (exn + ToolOutput) \<times> 'w" where
  "handlerBody st s toolName arguments w =
     (let tool = lookupTool (enabledToolsMap s) toolName in
      if \<not> truthyLooked tool then
        (let wasAvailable = list_ex (\<lambda>t. name t = toolName) (availableToolsList s);
             message = (if wasAvailable then notEnabledText toolName else notExistText toolName)
         in (Inl (McpError MethodNotFound message), w))
      else
        (case tool of
           ToolObj t \<Rightarrow> execute t arguments (getConnectionString st) w
         | _ \<Rightarrow> (Inl (TypeError ''tool.execute is not a function''), w)))"

text \<open>The handler with its \<open>catch\<close>; the \<open>console.error\<close> line of the \<open>catch\<close> is left out.\<close>

definition callTool ::
  "(ErrorCode \<Rightarrow> string \<Rightarrow> string) \<Rightarrow> settings \<Rightarrow> 'w PostgreSQLServer \<Rightarrow> string \<Rightarrow> args
     \<Rightarrow> 'w \<Rightarrow> ToolOutput \<times> 'w" where
  "callTool mcpMessage st s toolName arguments w =
     (case handlerBody st s toolName arguments w of
        (Inr result, w') \<Rightarrow> (result, w')
      | (Inl error, w') \<Rightarrow>
          (\<lparr>content = [TextBlock (''Error: '' @ errorMessage mcpMessage error)],
            isError = Some True\<rparr>, w'))"

section \<open>The database connection and the other collaborators\<close>

text \<open>
  \<open>DatabaseConnection\<close> (utils/connection) is used through \<open>connect\<close>, \<open>query\<close> and
  \<open>disconnect\<close>. The state the tools work on is the list of these calls made so far;
  whether a call succeeds, and what a query returns, is decided by the environment from
  the calls before it. \<open>db.query(sql)\<close> without bindings is recorded with the empty list.
\<close>

datatype dbop = Connect jsval | Query string "jsval list" | Disconnect

record env =
  mcpMessage :: "ErrorCode \<Rightarrow> string \<Rightarrow> string"
  connectOutcome :: "dbop list \<Rightarrow> jsval \<Rightarrow> exn option"
  queryOutcome :: "dbop list \<Rightarrow> string \<Rightarrow> jsval list \<Rightarrow> exn + jsval list"
  disconnectOutcome :: "dbop list \<Rightarrow> exn option"
  stringify :: "jsval \<Rightarrow> string"
  stringifyPretty :: "jsval \<Rightarrow> string"

type_synonym 'a io = "dbop list \<Rightarrow> (exn + 'a) \<times> dbop list"

definition ret :: "'a \<Rightarrow> 'a io" where
  "ret v tr = (Inr v, tr)"

definition throw :: "exn \<Rightarrow> 'a io" where
  "throw e tr = (Inl e, tr)"

definition bind :: "'a io \<Rightarrow> ('a \<Rightarrow> 'b io) \<Rightarrow> 'b io" where
  "bind m f tr = (case m tr of (Inl e, tr') \<Rightarrow> (Inl e, tr') | (Inr v, tr') \<Rightarrow> f v tr')"

definition db_connect :: "env \<Rightarrow> jsval \<Rightarrow> unit io" where
  "db_connect E cs tr =
     (case connectOutcome E tr cs of
        None \<Rightarrow> (Inr (), tr @ [Connect cs])
      | Some e \<Rightarrow> (Inl e, tr @ [Connect cs]))"

definition db_query :: "env \<Rightarrow> string \<Rightarrow> jsval list \<Rightarrow> jsval list io" where
  "db_query E sql params tr = (queryOutcome E tr sql params, tr @ [Query sql params])"

definition db_disconnect :: "env \<Rightarrow> unit io" where
  "db_disconnect E tr =
     (case disconnectOutcome E tr of
        None \<Rightarrow> (Inr (), tr @ [Disconnect])
      | Some e \<Rightarrow> (Inl e, tr @ [Disconnect]))"

text \<open>
  \<open>try { body } catch (error) { handler } finally { fin }\<close>: the \<open>finally\<close> block runs on
  every path, and what it throws replaces the result.
\<close>

definition tryCatchFinally :: "'a io \<Rightarrow> (exn \<Rightarrow> 'a io) \<Rightarrow> unit io \<Rightarrow> 'a io" where
  "tryCatchFinally body handler fin tr =
     (let (r1, tr1) = body tr;
          (r2, tr2) = (case r1 of Inl e \<Rightarrow> handler e tr1 | Inr v \<Rightarrow> (Inr v, tr1));
          (r3, tr3) = fin tr2
      in case r3 of Inl e \<Rightarrow> (Inl e, tr3) | Inr u \<Rightarrow> (r2, tr3))"

definition tryFinally :: "'a io \<Rightarrow> unit io \<Rightarrow> 'a io" where
  "tryFinally body fin tr =
     (let (r1, tr1) = body tr;
          (r3, tr3) = fin tr1
      in case r3 of Inl e \<Rightarrow> (Inl e, tr3) | Inr u \<Rightarrow> (r1, tr3))"

definition tryCatch :: "'a io \<Rightarrow> (exn \<Rightarrow> 'a io) \<Rightarrow> 'a io" where
  "tryCatch body handler tr =
     (case body tr of (Inl e, tr1) \<Rightarrow> handler e tr1 | (Inr v, tr1) \<Rightarrow> (Inr v, tr1))"

text \<open>An object literal; a property whose value is \<open>undefined\<close> is left out, as
  \<open>JSON.stringify\<close> leaves it out.\<close>

fun objOf :: "(string \<times> jsval option) list \<Rightarrow> (string \<times> jsval) list" where
  "objOf [] = []"
| "objOf ((k, None) # ps) = objOf ps"
| "objOf ((k, Some v) # ps) = (k, v) # objOf ps"

text \<open>\<open>a || d\<close> with a string default, and a parameter default \<open>x = d\<close>.\<close>

definition orDefault :: "jsval option \<Rightarrow> string \<Rightarrow> jsval" where
  "orDefault v d = (if truthyO v then the v else JStr d)"

definition paramDefault :: "jsval option \<Rightarrow> string \<Rightarrow> jsval" where
  "paramDefault v d = (case v of None \<Rightarrow> JStr d | Some x \<Rightarrow> x)"

definition orElse :: "string \<Rightarrow> string \<Rightarrow> string" where
  "orElse a b = (if a = [] then b else a)"

section \<open>The function and row-level-security operations (tools/functions.ts)\<close>

text \<open>The source's names start with an underscore; here they start with \<open>u_\<close>.\<close>

record FunctionResult =
  success :: bool
  message :: string
  details :: jsval

definition failed :: "env \<Rightarrow> string \<Rightarrow> exn \<Rightarrow> FunctionResult io" where
  "failed E what error =
     ret \<lparr>success = False, message = what @ errorMessage (mcpMessage E) error, details = JNull\<rparr>"

definition getFunctionsSql :: string where
  \<open>getFunctionsSql = join nl
     ['''',
      ''      SELECT '',
      ''        p.proname AS name,'',
      ''        l.lanname AS language,'',
      ''        pg_get_function_result(p.oid) AS "returnType",'',
      ''        pg_get_function_arguments(p.oid) AS "arguments",'',
      ''        CASE'',
      ''          WHEN p.provolatile = '' @ sq @ ''i'' @ sq @ '' THEN '' @ sq @ ''IMMUTABLE'' @ sq,
      ''          WHEN p.provolatile = '' @ sq @ ''s'' @ sq @ '' THEN '' @ sq @ ''STABLE'' @ sq,
      ''          WHEN p.provolatile = '' @ sq @ ''v'' @ sq @ '' THEN '' @ sq @ ''VOLATILE'' @ sq,
      ''        END AS volatility,'',
      ''        pg_get_functiondef(p.oid) AS definition,'',
      ''        a.rolname AS owner'',
      ''      FROM pg_proc p'',
      ''      JOIN pg_namespace n ON p.pronamespace = n.oid'',
      ''      JOIN pg_language l ON p.prolang = l.oid'',
      ''      JOIN pg_authid a ON p.proowner = a.oid'',
      ''      WHERE n.nspname = $1'',
      ''    '']\<close>

definition u_getFunctions ::
  "env \<Rightarrow> jsval \<Rightarrow> jsval option \<Rightarrow> jsval option \<Rightarrow> FunctionResult io" where
  "u_getFunctions E connectionString functionName schemaArg =
     (let schema = paramDefault schemaArg ''public'' in
      tryCatchFinally
        (bind (db_connect E connectionString) (\<lambda>_.
           let query = getFunctionsSql
                 @ (if truthyO functionName then '' AND p.proname = $2'' else [])
                 @ '' ORDER BY p.proname'';
               params = [schema] @ (if truthyO functionName then [the functionName] else [])
           in bind (db_query E query params) (\<lambda>functions.
                ret \<lparr>success = True,
                     message = (if truthyO functionName
                                then ''Function information for '' @ tmpl functionName
                                else ''Found '' @ showNat (length functions)
                                       @ '' functions in schema '' @ jsString schema),
                     details = JArr functions\<rparr>)))
        (failed E ''Failed to get function information: '')
        (db_disconnect E))"

definition u_createFunction ::
  "env \<Rightarrow> jsval \<Rightarrow> jsval option \<Rightarrow> jsval option \<Rightarrow> jsval option \<Rightarrow> jsval option
     \<Rightarrow> (string \<times> jsval) list \<Rightarrow> FunctionResult io" where
  "u_createFunction E connectionString functionName parameters returnType functionBody options =
     tryCatchFinally
       (bind (db_connect E connectionString) (\<lambda>_.
          let language = orDefault (getProp options ''language'') ''plpgsql'';
              volatility = orDefault (getProp options ''volatility'') ''VOLATILE'';
              schema = orDefault (getProp options ''schema'') ''public'';
              security = orDefault (getProp options ''security'') ''INVOKER'';
              createOrReplace =
                (if truthyO (getProp options ''replace'') then ''CREATE OR REPLACE'' else ''CREATE'');
              sql = join nl
                ['''',
                 ''      '' @ createOrReplace @ '' FUNCTION '' @ jsString schema @ ''.''
                    @ tmpl functionName @ ''('' @ tmpl parameters @ '')'',
                 ''      RETURNS '' @ tmpl returnType,
                 ''      LANGUAGE '' @ jsString language,
                 ''      '' @ jsString volatility,
                 ''      SECURITY '' @ jsString security,
                 ''      AS $function$'',
                 ''      '' @ tmpl functionBody,
                 ''      $function$;'',
                 ''    '']
          in bind (db_query E sql []) (\<lambda>_.
               ret \<lparr>success = True,
                    message = ''Function '' @ tmpl functionName @ '' created successfully'',
                    details = JObj (objOf
                      [(''name'', functionName), (''schema'', Some schema),
                       (''returnType'', returnType), (''language'', Some language),
                       (''volatility'', Some volatility), (''security'', Some security)])\<rparr>)))
       (failed E ''Failed to create function: '')
       (db_disconnect E)"

definition u_dropFunction ::
  "env \<Rightarrow> jsval \<Rightarrow> jsval option \<Rightarrow> jsval option \<Rightarrow> (string \<times> jsval) list
     \<Rightarrow> FunctionResult io" where
  "u_dropFunction E connectionString functionName parameters options =
     tryCatchFinally
       (bind (db_connect E connectionString) (\<lambda>_.
          let schema = orDefault (getProp options ''schema'') ''public'';
              ifExists = (if truthyO (getProp options ''ifExists'') then ''IF EXISTS'' else []);
              cascade = (if truthyO (getProp options ''cascade'') then ''CASCADE'' else []);
              sql = ''DROP FUNCTION '' @ ifExists @ '' '' @ jsString schema @ ''.'' @ tmpl functionName
                    @ (if truthyO parameters then ''('' @ tmpl parameters @ '')'' else [])
                    @ (if cascade \<noteq> [] then '' '' @ cascade else [])
          in bind (db_query E sql []) (\<lambda>_.
               ret \<lparr>success = True,
                    message = ''Function '' @ tmpl functionName @ '' dropped successfully'',
                    details = JObj (objOf [(''name'', functionName), (''schema'', Some schema)])\<rparr>)))
       (failed E ''Failed to drop function: '')
       (db_disconnect E)"

definition u_enableRLS :: "env \<Rightarrow> jsval \<Rightarrow> jsval option \<Rightarrow> jsval option \<Rightarrow> FunctionResult io" where
  "u_enableRLS E connectionString tableName schemaArg =
     (let schema = paramDefault schemaArg ''public'' in
      tryCatchFinally
        (bind (db_connect E connectionString) (\<lambda>_.
           bind (db_query E (''ALTER TABLE '' @ jsString schema @ ''.'' @ tmpl tableName
                               @ '' ENABLE ROW LEVEL SECURITY'') []) (\<lambda>_.
             ret \<lparr>success = True,
                  message = ''Row-Level Security enabled on '' @ jsString schema @ ''.'' @ tmpl tableName,
                  details = JObj (objOf [(''table'', tableName), (''schema'', Some schema)])\<rparr>)))
        (failed E ''Failed to enable RLS: '')
        (db_disconnect E))"

definition u_disableRLS :: "env \<Rightarrow> jsval \<Rightarrow> jsval option \<Rightarrow> jsval option \<Rightarrow> FunctionResult io" where
  "u_disableRLS E connectionString tableName schemaArg =
     (let schema = paramDefault schemaArg ''public'' in
      tryCatchFinally
        (bind (db_connect E connectionString) (\<lambda>_.
           bind (db_query E (''ALTER TABLE '' @ jsString schema @ ''.'' @ tmpl tableName
                               @ '' DISABLE ROW LEVEL SECURITY'') []) (\<lambda>_.
             ret \<lparr>success = True,
                  message = ''Row-Level Security disabled on '' @ jsString schema @ ''.'' @ tmpl tableName,
                  details = JObj (objOf [(''table'', tableName), (''schema'', Some schema)])\<rparr>)))
        (failed E ''Failed to disable RLS: '')
        (db_disconnect E))"

definition u_createRLSPolicy ::
  "env \<Rightarrow> jsval \<Rightarrow> jsval option \<Rightarrow> jsval option \<Rightarrow> jsval option \<Rightarrow> jsval option
     \<Rightarrow> (string \<times> jsval) list \<Rightarrow> FunctionResult io" where
  "u_createRLSPolicy E connectionString tableName policyName using check options =
     tryCatchFinally
       (bind (db_connect E connectionString) (\<lambda>_.
          let schema = orDefault (getProp options ''schema'') ''public'';
              command = orDefault (getProp options ''command'') ''ALL'';
              createOrReplace =
                (if truthyO (getProp options ''replace'') then ''CREATE OR REPLACE'' else ''CREATE'');
              sql = join nl
                      ['''',
                       ''      '' @ createOrReplace @ '' POLICY '' @ tmpl policyName,
                       ''      ON '' @ jsString schema @ ''.'' @ tmpl tableName,
                       ''      FOR '' @ jsString command,
                       ''    '']
                    @ (if truthyO (getProp options ''role'')
                       then '' TO '' @ tmpl (getProp options ''role'') else [])
                    @ '' USING ('' @ tmpl using @ '')''
                    @ (if truthyO check then '' WITH CHECK ('' @ tmpl check @ '')'' else [])
          in bind (db_query E sql []) (\<lambda>_.
               ret \<lparr>success = True,
                    message = ''Policy '' @ tmpl policyName @ '' created successfully on ''
                                @ jsString schema @ ''.'' @ tmpl tableName,
                    details = JObj (objOf
                      [(''table'', tableName), (''schema'', Some schema),
                       (''policy'', policyName), (''command'', Some command)])\<rparr>)))
       (failed E ''Failed to create policy: '')
       (db_disconnect E)"

definition u_dropRLSPolicy ::
  "env \<Rightarrow> jsval \<Rightarrow> jsval option \<Rightarrow> jsval option \<Rightarrow> (string \<times> jsval) list
     \<Rightarrow> FunctionResult io" where
  "u_dropRLSPolicy E connectionString tableName policyName options =
     tryCatchFinally
       (bind (db_connect E connectionString) (\<lambda>_.
          let schema = orDefault (getProp options ''schema'') ''public'';
              ifExists = (if truthyO (getProp options ''ifExists'') then ''IF EXISTS'' else [])
          in bind (db_query E (''DROP POLICY '' @ ifExists @ '' '' @ tmpl policyName @ '' ON ''
                                 @ jsString schema @ ''.'' @ tmpl tableName) []) (\<lambda>_.
               ret \<lparr>success = True,
                    message = ''Policy '' @ tmpl policyName @ '' dropped successfully from ''
                                @ jsString schema @ ''.'' @ tmpl tableName,
                    details = JObj (objOf
                      [(''table'', tableName), (''schema'', Some schema),
                       (''policy'', policyName)])\<rparr>)))
       (failed E ''Failed to drop policy: '')
       (db_disconnect E)"

text \<open>
  \<open>options.roles.length === 0 ? 'PUBLIC' : options.roles.join(', ')\<close> for whatever JSON
  value \<open>roles\<close> holds: only an array has \<open>join\<close>, and \<open>null\<close> has no properties.
\<close>

fun rolesString :: "jsval \<Rightarrow> exn + string" where
  "rolesString (JArr xs) =
     (if length xs = 0 then Inr ''PUBLIC''
      else Inr (join '', '' (map (\<lambda>v. if v = JNull then [] else jsString v) xs)))"
| "rolesString (JStr s) =
     (if length s = 0 then Inr ''PUBLIC''
      else Inl (TypeError ''options.roles.join is not a function''))"
| "rolesString JNull =
     Inl (TypeError (''Cannot read properties of null (reading '' @ sq @ ''length'' @ sq @ '')''))"
| "rolesString (JObj ps) =
     (if getProp ps ''length'' = Some (JNum 0) then Inr ''PUBLIC''
      else Inl (TypeError ''options.roles.join is not a function''))"
| "rolesString v = Inl (TypeError ''options.roles.join is not a function'')"

definition u_editRLSPolicy ::
  "env \<Rightarrow> jsval \<Rightarrow> jsval option \<Rightarrow> jsval option \<Rightarrow> (string \<times> jsval) list
     \<Rightarrow> FunctionResult io" where
  "u_editRLSPolicy E connectionString tableName policyName options =
     tryCatchFinally
       (bind (db_connect E connectionString) (\<lambda>_.
          let schema = orDefault (getProp options ''schema'') ''public'' in
          bind (case getProp options ''roles'' of
                  None \<Rightarrow> ret []
                | Some r \<Rightarrow> (case rolesString r of
                               Inl e \<Rightarrow> throw e
                             | Inr rs \<Rightarrow> ret [''TO '' @ rs])) (\<lambda>toClause.
          let alterClauses = toClause
                @ (case getProp options ''using'' of
                     None \<Rightarrow> [] | Some u \<Rightarrow> [''USING ('' @ jsString u @ '')''])
                @ (case getProp options ''check'' of
                     None \<Rightarrow> [] | Some c \<Rightarrow> [''WITH CHECK ('' @ jsString c @ '')''])
          in if length alterClauses = 0 then
               ret \<lparr>success = False, message = ''No changes specified for the policy.'',
                    details = JObj (objOf
                      [(''table'', tableName), (''schema'', Some schema),
                       (''policy'', policyName)])\<rparr>
             else
               bind (db_query E (join nl
                       ['''',
                        ''      ALTER POLICY '' @ tmpl policyName,
                        ''      ON '' @ jsString schema @ ''.'' @ tmpl tableName,
                        ''      '' @ join nl alterClauses @ '';'',
                        ''    '']) []) (\<lambda>_.
                 ret \<lparr>success = True,
                      message = ''Policy '' @ tmpl policyName @ '' on '' @ jsString schema @ ''.''
                                  @ tmpl tableName @ '' updated successfully.'',
                      details = JObj (objOf
                        [(''table'', tableName), (''schema'', Some schema),
                         (''policy'', policyName), (''changes'', Some (JObj options))])\<rparr>))))
       (failed E ''Failed to edit policy: '')
       (db_disconnect E)"

definition getRLSPoliciesSql :: string where
  \<open>getRLSPoliciesSql = join nl
     ['''',
      ''      SELECT '',
      ''        schemaname,'',
      ''        tablename,'',
      ''        policyname,'',
      ''        roles,'',
      ''        cmd,'',
      ''        qual as "using",'',
      ''        with_check as "check"'',
      ''      FROM pg_policies'',
      ''      WHERE schemaname = $1'',
      ''    '']\<close>

definition u_getRLSPolicies ::
  "env \<Rightarrow> jsval \<Rightarrow> jsval option \<Rightarrow> jsval option \<Rightarrow> FunctionResult io" where
  "u_getRLSPolicies E connectionString tableName schemaArg =
     (let schema = paramDefault schemaArg ''public'' in
      tryCatchFinally
        (bind (db_connect E connectionString) (\<lambda>_.
           let query = getRLSPoliciesSql
                 @ (if truthyO tableName then '' AND tablename = $2'' else [])
                 @ '' ORDER BY tablename, policyname'';
               params = [schema] @ (if truthyO tableName then [the tableName] else [])
           in bind (db_query E query params) (\<lambda>policies.
                ret \<lparr>success = True,
                     message = (if truthyO tableName
                                then ''Policies for table '' @ jsString schema @ ''.'' @ tmpl tableName
                                else ''All policies in schema '' @ jsString schema),
                     details = JArr policies\<rparr>)))
        (failed E ''Failed to get policies: '')
        (db_disconnect E))"

section \<open>The tool descriptors of tools/functions.ts\<close>

text \<open>
  The \<open>describe\<close> texts of the schemas are documentation and are left out; so is the
  diagnostic \<open>console.error\<close> of the create branch.
\<close>

definition destructureError :: exn where
  "destructureError =
     TypeError (''Cannot destructure property '' @ sq @ ''connectionString'' @ sq @ '' of ''
                  @ sq @ ''args'' @ sq @ '' as it is undefined.'')"

text \<open>
  The opening of every \<open>execute\<close> of this file: destructure \<open>args\<close>, then
  \<open>getConnectionStringVal(connStringArg)\<close>, both outside any \<open>try\<close>.
\<close>

definition withArgs ::
  "args \<Rightarrow> GetConnectionStringFn \<Rightarrow> ((string \<times> jsval) list \<Rightarrow> jsval \<Rightarrow> 'a io) \<Rightarrow> 'a io" where
  "withArgs arguments getConnectionStringVal k =
     (case arguments of
        None \<Rightarrow> throw destructureError
      | Some a \<Rightarrow>
         (case getConnectionStringVal (getProp a ''connectionString'') of
            Inl e \<Rightarrow> throw e
          | Inr resolvedConnString \<Rightarrow> k a resolvedConnString))"

text \<open>The two ways a \<open>FunctionResult\<close> is wrapped into an envelope.\<close>

definition withDetails :: "env \<Rightarrow> FunctionResult \<Rightarrow> ToolOutput" where
  "withDetails E result =
     (if success result
      then okOutput (message result
             @ (if truthy (details result) then '' Details: '' @ stringify E (details result)
                else []))
      else errOutput (message result))"

definition asListing :: "env \<Rightarrow> FunctionResult \<Rightarrow> ToolOutput" where
  "asListing E result =
     (if success result
      then okOutput (orElse (stringifyPretty E (details result)) (message result))
      else errOutput (message result))"

definition optConnectionString :: "string \<times> zod" where
  "optConnectionString = (''connectionString'', ZOptional ZString)"

definition getFunctionsTool :: "env \<Rightarrow> dbop list PostgresTool" where
  "getFunctionsTool E =
     \<lparr>name = ''pg_get_functions'',
      description = ''Get information about PostgreSQL functions'',
      inputSchema = [optConnectionString, (''functionName'', ZOptional ZString),
                     (''schema'', ZOptional ZString)],
      execute = (\<lambda>arguments getConnectionStringVal.
        withArgs arguments getConnectionStringVal (\<lambda>a resolvedConnString.
          bind (u_getFunctions E resolvedConnString (getProp a ''functionName'') (getProp a ''schema''))
            (\<lambda>result. ret (asListing E result))))\<rparr>"

definition createFunctionTool :: "env \<Rightarrow> dbop list PostgresTool" where
  "createFunctionTool E =
     \<lparr>name = ''pg_create_function'',
      description = ''Create or replace a PostgreSQL function'',
      inputSchema = [optConnectionString, (''functionName'', ZString), (''parameters'', ZString),
                     (''returnType'', ZString), (''functionBody'', ZString),
                     (''language'', ZEnum [''sql'', ''plpgsql'', ''plpython3u'']),
                     (''volatility'', ZEnum [''VOLATILE'', ''STABLE'', ''IMMUTABLE'']),
                     (''schema'', ZString), (''security'', ZEnum [''INVOKER'', ''DEFINER'']),
                     (''replace'', ZBoolean)],
      execute = (\<lambda>arguments getConnectionStringVal.
        withArgs arguments getConnectionStringVal (\<lambda>a resolvedConnString.
          bind (u_createFunction E resolvedConnString (getProp a ''functionName'')
                  (getProp a ''parameters'') (getProp a ''returnType'') (getProp a ''functionBody'')
                  (objOf [(''language'', getProp a ''language''),
                          (''volatility'', getProp a ''volatility''),
                          (''schema'', getProp a ''schema''),
                          (''security'', getProp a ''security''),
                          (''replace'', getProp a ''replace'')]))
            (\<lambda>result. ret (withDetails E result))))\<rparr>"

definition dropFunctionTool :: "env \<Rightarrow> dbop list PostgresTool" where
  "dropFunctionTool E =
     \<lparr>name = ''pg_drop_function'',
      description = ''Drop a PostgreSQL function'',
      inputSchema = [optConnectionString, (''functionName'', ZString), (''parameters'', ZString),
                     (''schema'', ZString), (''ifExists'', ZBoolean), (''cascade'', ZBoolean)],
      execute = (\<lambda>arguments getConnectionStringVal.
        withArgs arguments getConnectionStringVal (\<lambda>a resolvedConnString.
          bind (u_dropFunction E resolvedConnString (getProp a ''functionName'')
                  (getProp a ''parameters'')
                  (objOf [(''schema'', getProp a ''schema''),
                          (''ifExists'', getProp a ''ifExists''),
                          (''cascade'', getProp a ''cascade'')]))
            (\<lambda>result. ret (withDetails E result))))\<rparr>"

definition enableRLSTool :: "env \<Rightarrow> dbop list PostgresTool" where
  "enableRLSTool E =
     \<lparr>name = ''pg_enable_rls'',
      description = ''Enable Row-Level Security on a table'',
      inputSchema = [optConnectionString, (''tableName'', ZString), (''schema'', ZString)],
      execute = (\<lambda>arguments getConnectionStringVal.
        withArgs arguments getConnectionStringVal (\<lambda>a resolvedConnString.
          bind (u_enableRLS E resolvedConnString (getProp a ''tableName'') (getProp a ''schema''))
            (\<lambda>result. ret (withDetails E result))))\<rparr>"

definition disableRLSTool :: "env \<Rightarrow> dbop list PostgresTool" where
  "disableRLSTool E =
     \<lparr>name = ''pg_disable_rls'',
      description = ''Disable Row-Level Security on a table'',
      inputSchema = [optConnectionString, (''tableName'', ZString), (''schema'', ZString)],
      execute = (\<lambda>arguments getConnectionStringVal.
        withArgs arguments getConnectionStringVal (\<lambda>a resolvedConnString.
          bind (u_disableRLS E resolvedConnString (getProp a ''tableName'') (getProp a ''schema''))
            (\<lambda>result. ret (withDetails E result))))\<rparr>"

definition createRLSPolicyTool :: "env \<Rightarrow> dbop list PostgresTool" where
  "createRLSPolicyTool E =
     \<lparr>name = ''pg_create_rls_policy'',
      description = ''Create a Row-Level Security policy'',
      inputSchema = [optConnectionString, (''tableName'', ZString), (''policyName'', ZString),
                     (''using'', ZString), (''check'', ZString), (''schema'', ZString),
                     (''command'', ZEnum [''ALL'', ''SELECT'', ''INSERT'', ''UPDATE'', ''DELETE'']),
                     (''role'', ZString), (''replace'', ZBoolean)],
      execute = (\<lambda>arguments getConnectionStringVal.
        withArgs arguments getConnectionStringVal (\<lambda>a resolvedConnString.
          bind (u_createRLSPolicy E resolvedConnString (getProp a ''tableName'')
                  (getProp a ''policyName'') (getProp a ''using'') (getProp a ''check'')
                  (objOf [(''schema'', getProp a ''schema''),
                          (''command'', getProp a ''command''),
                          (''role'', getProp a ''role''),
                          (''replace'', getProp a ''replace'')]))
            (\<lambda>result. ret (withDetails E result))))\<rparr>"

definition dropRLSPolicyTool :: "env \<Rightarrow> dbop list PostgresTool" where
  "dropRLSPolicyTool E =
     \<lparr>name = ''pg_drop_rls_policy'',
      description = ''Drop a Row-Level Security policy'',
      inputSchema = [optConnectionString, (''tableName'', ZString), (''policyName'', ZString),
                     (''schema'', ZString), (''ifExists'', ZBoolean)],
      execute = (\<lambda>arguments getConnectionStringVal.
        withArgs arguments getConnectionStringVal (\<lambda>a resolvedConnString.
          bind (u_dropRLSPolicy E resolvedConnString (getProp a ''tableName'')
                  (getProp a ''policyName'')
                  (objOf [(''schema'', getProp a ''schema''),
                          (''ifExists'', getProp a ''ifExists'')]))
            (\<lambda>result. ret (withDetails E result))))\<rparr>"

definition editRLSPolicyTool :: "env \<Rightarrow> dbop list PostgresTool" where
  "editRLSPolicyTool E =
     \<lparr>name = ''pg_edit_rls_policy'',
      description = ''Edit an existing Row-Level Security policy'',
      inputSchema = [optConnectionString, (''tableName'', ZString), (''policyName'', ZString),
                     (''schema'', ZString), (''roles'', ZArray ZString), (''using'', ZString),
                     (''check'', ZString)],
      execute = (\<lambda>arguments getConnectionStringVal.
        withArgs arguments getConnectionStringVal (\<lambda>a resolvedConnString.
          bind (u_editRLSPolicy E resolvedConnString (getProp a ''tableName'')
                  (getProp a ''policyName'')
                  (objOf [(''schema'', getProp a ''schema''),
                          (''roles'', getProp a ''roles''),
                          (''using'', getProp a ''using''),
                          (''check'', getProp a ''check'')]))
            (\<lambda>result. ret (withDetails E result))))\<rparr>"

definition getRLSPoliciesTool :: "env \<Rightarrow> dbop list PostgresTool" where
  "getRLSPoliciesTool E =
     \<lparr>name = ''pg_get_rls_policies'',
      description = ''Get Row-Level Security policies'',
      inputSchema = [optConnectionString, (''tableName'', ZOptional ZString),
                     (''schema'', ZOptional ZString)],
      execute = (\<lambda>arguments getConnectionStringVal.
        withArgs arguments getConnectionStringVal (\<lambda>a resolvedConnString.
          bind (u_getRLSPolicies E resolvedConnString (getProp a ''tableName'') (getProp a ''schema''))
            (\<lambda>result. ret (asListing E result))))\<rparr>"

subsection \<open>The consolidated tools\<close>

text \<open>
  \<open>parameters === undefined || parameters === null ? '' :
     (typeof parameters === 'string' && parameters.trim() === '') ? '' : String(parameters)\<close>
\<close>

definition isWhiteSpace :: "char \<Rightarrow> bool" where
  "isWhiteSpace c = (c \<in> set [CHR 0x09, CHR 0x0A, CHR 0x0B, CHR 0x0C, CHR 0x0D, CHR 0x20, CHR 0xA0])"

fun normalizedParameters :: "jsval option \<Rightarrow> string" where
  "normalizedParameters None = []"
| "normalizedParameters (Some JNull) = []"
| "normalizedParameters (Some (JStr s)) = (if list_all isWhiteSpace s then [] else s)"
| "normalizedParameters (Some v) = jsString v"

definition manageFunctionsOperations :: "string list" where
  "manageFunctionsOperations = [''get'', ''create'', ''drop'']"

definition missingFieldsText :: "string list \<Rightarrow> string" where
  \<open>missingFieldsText missingFields =
     ''Error: Missing required fields: '' @ join '', '' missingFields
       @ ''. Note: parameters can be empty string "" for functions with no parameters''\<close>

definition unknownOperationText :: "jsval option \<Rightarrow> string \<Rightarrow> string" where
  \<open>unknownOperationText operation supported =
     ''Error: Unknown operation "'' @ tmpl operation @ ''". Supported operations: '' @ supported\<close>

definition executingError :: "env \<Rightarrow> jsval option \<Rightarrow> exn \<Rightarrow> ToolOutput io" where
  "executingError E operation error =
     ret (errOutput (''Error executing '' @ tmpl operation @ '' operation: ''
                       @ errorMessage (mcpMessage E) error))"

definition manageFunctions_execute :: "env \<Rightarrow> args \<Rightarrow> GetConnectionStringFn \<Rightarrow> ToolOutput io" where
  "manageFunctions_execute E arguments getConnectionStringVal =
     withArgs arguments getConnectionStringVal (\<lambda>a resolvedConnString.
       let operation = getProp a ''operation'';
           functionName = getProp a ''functionName'';
           schema = getProp a ''schema'';
           parameters = getProp a ''parameters'';
           returnType = getProp a ''returnType'';
           functionBody = getProp a ''functionBody''
       in tryCatch
            (if operation = Some (JStr ''get'') then
               bind (u_getFunctions E resolvedConnString functionName schema) (\<lambda>result.
                 if success result
                 then ret (okOutput (orElse (stringifyPretty E (details result)) (message result)))
                 else ret (withDetails E result))
             else if operation = Some (JStr ''create'') then
               (let missingFields =
                      (if \<not> truthyO functionName then [''functionName''] else [])
                      @ (if \<not> truthyO returnType then [''returnType''] else [])
                      @ (if \<not> truthyO functionBody then [''functionBody''] else [])
                in if length missingFields > 0
                   then ret (errOutput (missingFieldsText missingFields))
                   else
                     bind (u_createFunction E resolvedConnString functionName
                             (Some (JStr (normalizedParameters parameters))) returnType functionBody
                             (objOf [(''language'', getProp a ''language''),
                                     (''volatility'', getProp a ''volatility''),
                                     (''schema'', schema),
                                     (''security'', getProp a ''security''),
                                     (''replace'', getProp a ''replace'')]))
                       (\<lambda>result. ret (withDetails E result)))
             else if operation = Some (JStr ''drop'') then
               (if \<not> truthyO functionName
                then ret (errOutput ''Error: functionName is required for drop operation'')
                else
                  bind (u_dropFunction E resolvedConnString functionName parameters
                          (objOf [(''schema'', schema),
                                  (''ifExists'', getProp a ''ifExists''),
                                  (''cascade'', getProp a ''cascade'')]))
                    (\<lambda>result. ret (withDetails E result)))
             else ret (errOutput (unknownOperationText operation ''get, create, drop'')))
            (executingError E operation))"

definition manageFunctionsTool :: "env \<Rightarrow> dbop list PostgresTool" where
  \<open>manageFunctionsTool E =
     \<lparr>name = ''pg_manage_functions'',
      description = ''Manage PostgreSQL functions - get, create, or drop functions with a single tool. Examples: operation="get" to list functions, operation="create" with functionName="test_func", parameters="" (empty for no params), returnType="TEXT", functionBody="SELECT '' @ sq @ ''Hello'' @ sq @ ''"'',
      inputSchema = [optConnectionString,
                     (''operation'', ZEnum manageFunctionsOperations),
                     (''functionName'', ZOptional ZString), (''schema'', ZOptional ZString),
                     (''parameters'', ZOptional ZString), (''returnType'', ZOptional ZString),
                     (''functionBody'', ZOptional ZString),
                     (''language'', ZOptional (ZEnum [''sql'', ''plpgsql'', ''plpython3u''])),
                     (''volatility'', ZOptional (ZEnum [''VOLATILE'', ''STABLE'', ''IMMUTABLE''])),
                     (''security'', ZOptional (ZEnum [''INVOKER'', ''DEFINER''])),
                     (''replace'', ZOptional ZBoolean), (''ifExists'', ZOptional ZBoolean),
                     (''cascade'', ZOptional ZBoolean)],
      execute = manageFunctions_execute E\<rparr>\<close>

definition manageRLSOperations :: "string list" where
  "manageRLSOperations =
     [''enable'', ''disable'', ''create_policy'', ''edit_policy'', ''drop_policy'', ''get_policies'']"

definition manageRLS_execute :: "env \<Rightarrow> args \<Rightarrow> GetConnectionStringFn \<Rightarrow> ToolOutput io" where
  "manageRLS_execute E arguments getConnectionStringVal =
     withArgs arguments getConnectionStringVal (\<lambda>a resolvedConnString.
       let operation = getProp a ''operation'';
           tableName = getProp a ''tableName'';
           schema = getProp a ''schema'';
           policyName = getProp a ''policyName'';
           using = getProp a ''using'';
           check = getProp a ''check''
       in tryCatch
            (if operation = Some (JStr ''enable'') then
               (if \<not> truthyO tableName
                then ret (errOutput ''Error: tableName is required for enable operation'')
                else bind (u_enableRLS E resolvedConnString tableName schema)
                       (\<lambda>result. ret (withDetails E result)))
             else if operation = Some (JStr ''disable'') then
               (if \<not> truthyO tableName
                then ret (errOutput ''Error: tableName is required for disable operation'')
                else bind (u_disableRLS E resolvedConnString tableName schema)
                       (\<lambda>result. ret (withDetails E result)))
             else if operation = Some (JStr ''create_policy'') then
               (if \<not> truthyO tableName \<or> \<not> truthyO policyName \<or> \<not> truthyO using
                then ret (errOutput
                  ''Error: tableName, policyName, and using are required for create_policy operation'')
                else bind (u_createRLSPolicy E resolvedConnString tableName policyName using check
                             (objOf [(''schema'', schema),
                                     (''command'', getProp a ''command''),
                                     (''role'', getProp a ''role''),
                                     (''replace'', getProp a ''replace'')]))
                       (\<lambda>result. ret (withDetails E result)))
             else if operation = Some (JStr ''edit_policy'') then
               (if \<not> truthyO tableName \<or> \<not> truthyO policyName
                then ret (errOutput
                  ''Error: tableName and policyName are required for edit_policy operation'')
                else bind (u_editRLSPolicy E resolvedConnString tableName policyName
                             (objOf [(''schema'', schema),
                                     (''roles'', getProp a ''roles''),
                                     (''using'', using),
                                     (''check'', check)]))
                       (\<lambda>result. ret (withDetails E result)))
             else if operation = Some (JStr ''drop_policy'') then
               (if \<not> truthyO tableName \<or> \<not> truthyO policyName
                then ret (errOutput
                  ''Error: tableName and policyName are required for drop_policy operation'')
                else bind (u_dropRLSPolicy E resolvedConnString tableName policyName
                             (objOf [(''schema'', schema),
                                     (''ifExists'', getProp a ''ifExists'')]))
                       (\<lambda>result. ret (withDetails E result)))
             else if operation = Some (JStr ''get_policies'') then
               bind (u_getRLSPolicies E resolvedConnString tableName schema) (\<lambda>result.
                 if success result
                 then ret (okOutput (orElse (stringifyPretty E (details result)) (message result)))
                 else ret (withDetails E result))
             else ret (errOutput (unknownOperationText operation
                    ''enable, disable, create_policy, edit_policy, drop_policy, get_policies'')))
            (executingError E operation))"

definition manageRLSTool :: "env \<Rightarrow> dbop list PostgresTool" where
  \<open>manageRLSTool E =
     \<lparr>name = ''pg_manage_rls'',
      description = ''Manage PostgreSQL Row-Level Security - enable/disable RLS and manage policies. Examples: operation="enable" with tableName="users", operation="create_policy" with tableName, policyName, using, check'',
      inputSchema = [optConnectionString,
                     (''operation'', ZEnum manageRLSOperations),
                     (''tableName'', ZOptional ZString), (''schema'', ZOptional ZString),
                     (''policyName'', ZOptional ZString), (''using'', ZOptional ZString),
                     (''check'', ZOptional ZString),
                     (''command'', ZOptional (ZEnum [''ALL'', ''SELECT'', ''INSERT'', ''UPDATE'', ''DELETE''])),
                     (''role'', ZOptional ZString), (''replace'', ZOptional ZBoolean),
                     (''roles'', ZOptional (ZArray ZString)), (''ifExists'', ZOptional ZBoolean)],
      execute = manageRLS_execute E\<rparr>\<close>

section \<open>Comments on database objects (tools/comment.ts)\<close>

text \<open>
  These functions are exported with typed parameters and have no caller among the tools
  above, so their arguments are modelled at the declared types: strings, and an options
  object of optional strings.
\<close>

record commentOptions =
  o_schema :: "string option"
  o_parentObject :: "string option"
  o_parameters :: "string option"

text \<open>The truthiness of an optional string, and \<open>s || d\<close>.\<close>

definition given :: "string option \<Rightarrow> bool" where
  "given s = truthyO (map_option JStr s)"

definition strOr :: "string option \<Rightarrow> string \<Rightarrow> string" where
  "strOr s d = (if given s then the s else d)"

text \<open>\<open>comment.replace(/'/g, "''")\<close>\<close>

definition escapeQuotes :: "string \<Rightarrow> string" where
  "escapeQuotes s = concat (map (\<lambda>c. if c = CHR 0x27 then sq @ sq else [c]) s)"

definition quoted :: "string \<Rightarrow> string" where
  "quoted s = sq @ s @ sq"

definition liftE :: "exn + 'a \<Rightarrow> 'a io" where
  "liftE r = (case r of Inl e \<Rightarrow> throw e | Inr v \<Rightarrow> ret v)"

definition parentRequired :: "string \<Rightarrow> exn" where
  "parentRequired kind =
     Error (''Parent object (table name) is required for '' @ kind @ '' comments'')"

text \<open>The \<open>switch\<close> of \<open>setDatabaseComment\<close>, which builds the statement or throws.\<close>

definition setCommentSql :: "string \<Rightarrow> string \<Rightarrow> string \<Rightarrow> string \<Rightarrow> commentOptions \<Rightarrow> exn + string" where
  "setCommentSql objectType objectName schema escapedComment options =
     (if objectType = ''table'' then
        Inr (''COMMENT ON TABLE '' @ schema @ ''.'' @ objectName @ '' IS '' @ quoted escapedComment)
      else if objectType = ''column'' then
        (if \<not> given (o_parentObject options) then Inl (parentRequired ''column'')
         else Inr (''COMMENT ON COLUMN '' @ schema @ ''.'' @ the (o_parentObject options) @ ''.''
                     @ objectName @ '' IS '' @ quoted escapedComment))
      else if objectType = ''function'' then
        (let params = (if given (o_parameters options)
                       then ''('' @ the (o_parameters options) @ '')'' else [])
         in Inr (''COMMENT ON FUNCTION '' @ schema @ ''.'' @ objectName @ params @ '' IS ''
                   @ quoted escapedComment))
      else if objectType = ''policy'' then
        (if \<not> given (o_parentObject options) then Inl (parentRequired ''policy'')
         else Inr (''COMMENT ON POLICY '' @ objectName @ '' ON '' @ schema @ ''.''
                     @ the (o_parentObject options) @ '' IS '' @ quoted escapedComment))
      else if objectType = ''trigger'' then
        (if \<not> given (o_parentObject options) then Inl (parentRequired ''trigger'')
         else Inr (''COMMENT ON TRIGGER '' @ objectName @ '' ON '' @ schema @ ''.''
                     @ the (o_parentObject options) @ '' IS '' @ quoted escapedComment))
      else if objectType = ''constraint'' then
        (if \<not> given (o_parentObject options) then Inl (parentRequired ''constraint'')
         else Inr (''COMMENT ON CONSTRAINT '' @ objectName @ '' ON '' @ schema @ ''.''
                     @ the (o_parentObject options) @ '' IS '' @ quoted escapedComment))
      else if objectType = ''index'' then
        Inr (''COMMENT ON INDEX '' @ schema @ ''.'' @ objectName @ '' IS '' @ quoted escapedComment)
      else if objectType = ''sequence'' then
        Inr (''COMMENT ON SEQUENCE '' @ schema @ ''.'' @ objectName @ '' IS '' @ quoted escapedComment)
      else Inl (Error (''Unsupported object type: '' @ objectType)))"

definition commentDetails :: "string \<Rightarrow> string \<Rightarrow> string \<Rightarrow> commentOptions \<Rightarrow> (string \<times> jsval option) list" where
  "commentDetails objectType objectName schema options =
     [(''objectType'', Some (JStr objectType)), (''objectName'', Some (JStr objectName)),
      (''schema'', Some (JStr schema)),
      (''parentObject'', map_option JStr (o_parentObject options))]"

definition setDatabaseComment ::
  "env \<Rightarrow> string \<Rightarrow> string \<Rightarrow> string \<Rightarrow> string \<Rightarrow> commentOptions \<Rightarrow> FunctionResult io" where
  "setDatabaseComment E connectionString objectType objectName comment options =
     tryCatchFinally
       (bind (db_connect E (JStr connectionString)) (\<lambda>_.
          let schema = strOr (o_schema options) ''public'';
              escapedComment = escapeQuotes comment
          in bind (liftE (setCommentSql objectType objectName schema escapedComment options)) (\<lambda>sql.
             bind (db_query E sql []) (\<lambda>_.
               ret \<lparr>success = True,
                    message = ''Comment set successfully on '' @ objectType @ '' '' @ objectName,
                    details = JObj (objOf (commentDetails objectType objectName schema options))\<rparr>))))
       (failed E ''Failed to set comment: '')
       (db_disconnect E)"

definition removeDatabaseComment ::
  "env \<Rightarrow> string \<Rightarrow> string \<Rightarrow> string \<Rightarrow> commentOptions \<Rightarrow> FunctionResult io" where
  "removeDatabaseComment E connectionString objectType objectName options =
     setDatabaseComment E connectionString objectType objectName ''NULL'' options"

text \<open>The catalogue queries of \<open>getDatabaseComment\<close>.\<close>

definition regclassSql :: "string \<Rightarrow> string \<Rightarrow> string" where
  "regclassSql schema objectName =
     ''SELECT obj_description(to_regclass('' @ quoted (schema @ ''.'' @ objectName)
       @ '')::oid) AS comment''"

definition columnSql :: "string \<Rightarrow> string \<Rightarrow> string \<Rightarrow> string" where
  "columnSql schema parent objectName = join nl
     [''SELECT col_description('',
      ''          (SELECT oid FROM pg_class WHERE relname = '' @ quoted objectName
         @ '' AND relnamespace = (SELECT oid FROM pg_namespace WHERE nspname = '' @ quoted schema
         @ '')),'',
      ''          (SELECT attnum FROM pg_attribute WHERE attrelid = (SELECT oid FROM pg_class WHERE relname = ''
         @ quoted parent
         @ '' AND relnamespace = (SELECT oid FROM pg_namespace WHERE nspname = '' @ quoted schema
         @ '')) AND attname = '' @ quoted objectName @ '')'',
      ''        ) AS comment'']"

definition functionSql :: "string \<Rightarrow> string \<Rightarrow> string" where
  "functionSql schema objectName = join nl
     [''SELECT pg_description.description AS comment'',
      ''          FROM pg_proc'',
      ''          JOIN pg_namespace ON pg_proc.pronamespace = pg_namespace.oid'',
      ''          JOIN pg_description ON pg_description.objoid = pg_proc.oid'',
      ''          WHERE pg_proc.proname = '' @ quoted objectName,
      ''          AND pg_namespace.nspname = '' @ quoted schema]"

text \<open>The policy, trigger and constraint queries differ in the catalogue table, its
  relation column and its name column.\<close>

definition onTableSql :: "string \<Rightarrow> string \<Rightarrow> string \<Rightarrow> string \<Rightarrow> string \<Rightarrow> string \<Rightarrow> string" where
  "onTableSql cat relcol namecol schema parent objectName = join nl
     [''SELECT pg_description.description AS comment'',
      ''          FROM '' @ cat,
      ''          JOIN pg_class ON '' @ cat @ ''.'' @ relcol @ '' = pg_class.oid'',
      ''          JOIN pg_namespace ON pg_class.relnamespace = pg_namespace.oid'',
      ''          JOIN pg_description ON pg_description.objoid = '' @ cat @ ''.oid'',
      ''          WHERE '' @ cat @ ''.'' @ namecol @ '' = '' @ quoted objectName,
      ''          AND pg_class.relname = '' @ quoted parent,
      ''          AND pg_namespace.nspname = '' @ quoted schema]"

definition indexSql :: "string \<Rightarrow> string \<Rightarrow> string" where
  "indexSql schema objectName = join nl
     [''SELECT pg_description.description AS comment'',
      ''          FROM pg_index'',
      ''          JOIN pg_class idx ON pg_index.indexrelid = idx.oid'',
      ''          JOIN pg_namespace ON idx.relnamespace = pg_namespace.oid'',
      ''          JOIN pg_description ON pg_description.objoid = idx.oid'',
      ''          WHERE idx.relname = '' @ quoted objectName,
      ''          AND pg_namespace.nspname = '' @ quoted schema]"

definition getCommentSql :: "string \<Rightarrow> string \<Rightarrow> string \<Rightarrow> commentOptions \<Rightarrow> exn + string" where
  "getCommentSql objectType objectName schema options =
     (if objectType = ''table'' then Inr (regclassSql schema objectName)
      else if objectType = ''column'' then
        (if \<not> given (o_parentObject options) then Inl (parentRequired ''column'')
         else Inr (columnSql schema (the (o_parentObject options)) objectName))
      else if objectType = ''function'' then Inr (functionSql schema objectName)
      else if objectType = ''policy'' then
        (if \<not> given (o_parentObject options) then Inl (parentRequired ''policy'')
         else Inr (onTableSql ''pg_policy'' ''polrelid'' ''polname'' schema
                     (the (o_parentObject options)) objectName))
      else if objectType = ''trigger'' then
        (if \<not> given (o_parentObject options) then Inl (parentRequired ''trigger'')
         else Inr (onTableSql ''pg_trigger'' ''tgrelid'' ''tgname'' schema
                     (the (o_parentObject options)) objectName))
      else if objectType = ''constraint'' then
        (if \<not> given (o_parentObject options) then Inl (parentRequired ''constraint'')
         else Inr (onTableSql ''pg_constraint'' ''conrelid'' ''conname'' schema
                     (the (o_parentObject options)) objectName))
      else if objectType = ''index'' then Inr (indexSql schema objectName)
      else if objectType = ''sequence'' then Inr (regclassSql schema objectName)
      else Inl (Error (''Unsupported object type: '' @ objectType)))"

text \<open>
  \<open>row.k\<close> on a row the driver returned: a property read, which throws on \<open>null\<close>.
\<close>

definition readError :: "string \<Rightarrow> string \<Rightarrow> exn" where
  "readError what k =
     TypeError (''Cannot read properties of '' @ what @ '' (reading '' @ sq @ k @ sq @ '')'')"

fun rowField :: "jsval \<Rightarrow> string \<Rightarrow> exn + jsval option" where
  "rowField (JObj ps) k = Inr (getProp ps k)"
| "rowField JNull k = Inl (readError ''null'' k)"
| "rowField v k = Inr None"

text \<open>\<open>rows[0].k\<close>, where \<open>rows[0]\<close> of an empty array is \<open>undefined\<close>.\<close>

fun firstField :: "jsval list \<Rightarrow> string \<Rightarrow> exn + jsval option" where
  "firstField [] k = Inl (readError ''undefined'' k)"
| "firstField (r # rs) k = rowField r k"

definition getDatabaseComment ::
  "env \<Rightarrow> string \<Rightarrow> string \<Rightarrow> string \<Rightarrow> commentOptions \<Rightarrow> FunctionResult io" where
  "getDatabaseComment E connectionString objectType objectName options =
     tryCatchFinally
       (bind (db_connect E (JStr connectionString)) (\<lambda>_.
          let schema = strOr (o_schema options) ''public'' in
          bind (liftE (getCommentSql objectType objectName schema options)) (\<lambda>sql.
          bind (db_query E sql []) (\<lambda>rows.
          bind (if length rows > 0 then liftE (firstField rows ''comment'') else ret (Some JNull))
            (\<lambda>comment.
               ret \<lparr>success = True,
                    message = ''Comment retrieved successfully for '' @ objectType @ '' '' @ objectName,
                    details = JObj (objOf (commentDetails objectType objectName schema options
                                             @ [(''comment'', comment)]))\<rparr>)))))
       (failed E ''Failed to get comment: '')
       (db_disconnect E)"

section \<open>Database analysis (tools/analyze.ts)\<close>

text \<open>
  The report keeps the values as the driver returned them. The arithmetic on them
  (\<open>Number.parseInt\<close>, \<open>parseFloat\<close>, \<open>toFixed\<close> and the comparisons with \<open>0.99\<close>,
  \<open>0.8 * max_connections\<close> and \<open>1\<close>) and the rendering of the report by
  \<open>JSON.stringify\<close> are parameters; the diagnostic \<open>console.error\<close> lines are left out.
\<close>

record metrics =
  connections :: "jsval option"
  activeQueries :: "jsval option"
  cacheHitRatio :: "jsval option"
  tableSizes :: "(string \<times> jsval option) list"

record AnalysisResult =
  version :: "jsval option"
  settingsOfDb :: "(string \<times> jsval option) list"
  metricsOfDb :: metrics
  recommendations :: "string list"

record numerics =
  cacheHitBelow99 :: "jsval option \<Rightarrow> bool"
  connectionsAbove80 :: "jsval option \<Rightarrow> jsval option \<Rightarrow> bool"
  countAboveOne :: "jsval option \<Rightarrow> bool"
  renderAnalysis :: "AnalysisResult \<Rightarrow> string"

definition getVersion :: "env \<Rightarrow> jsval option io" where
  "getVersion E =
     bind (db_query E ''SELECT version()'' []) (\<lambda>result. liftE (firstField result ''version''))"

text \<open>\<open>acc[row.name] = row.unit ? `${row.setting}${row.unit}` : row.setting\<close>, newest entry first.\<close>

fun reduceSettings ::
  "jsval list \<Rightarrow> (string \<times> jsval option) list \<Rightarrow> exn + (string \<times> jsval option) list" where
  "reduceSettings [] acc = Inr acc"
| "reduceSettings (row # rows) acc =
     (case rowField row ''name'' of
        Inl e \<Rightarrow> Inl e
      | Inr nm \<Rightarrow>
         (case rowField row ''unit'' of
            Inl e \<Rightarrow> Inl e
          | Inr unit \<Rightarrow>
             (case rowField row ''setting'' of
                Inl e \<Rightarrow> Inl e
              | Inr setting \<Rightarrow>
                  reduceSettings rows
                    ((tmpl nm, if truthyO unit then Some (JStr (tmpl setting @ tmpl unit))
                               else setting) # acc))))"

definition getSettings :: "env \<Rightarrow> (string \<times> jsval option) list io" where
  "getSettings E =
     bind (db_query E ''SELECT name, setting, unit FROM pg_settings WHERE name IN ($1, $2, $3, $4, $5)''
             [JStr ''max_connections'', JStr ''shared_buffers'', JStr ''work_mem'',
              JStr ''maintenance_work_mem'', JStr ''effective_cache_size''])
       (\<lambda>result. liftE (reduceSettings result []))"

definition rawStatsSql :: string where
  "rawStatsSql = join nl
     [''SELECT'',
      ''      datname,'',
      ''      COALESCE(blks_hit, 0) as hits,'',
      ''      COALESCE(blks_read, 0) as reads'',
      ''    FROM pg_stat_database'',
      ''    WHERE datname = current_database()'']"

definition cacheHitSql :: string where
  "cacheHitSql = join nl
     [''WITH stats AS ('',
      ''      SELECT'',
      ''        COALESCE(blks_hit, 0) as hits,'',
      ''        COALESCE(blks_read, 0) as reads'',
      ''      FROM pg_stat_database'',
      ''      WHERE datname = current_database()'',
      ''    )'',
      ''    SELECT'',
      ''      CASE'',
      ''        WHEN (hits + reads) = 0 THEN 0'',
      ''        ELSE ROUND((hits::float / (hits + reads)::float)::numeric, 2)'',
      ''      END as ratio'',
      ''    FROM stats'']"

definition tableSizesSql :: string where
  "tableSizesSql = join nl
     [''SELECT '',
      ''      tablename,'',
      ''      pg_size_pretty(pg_table_size(schemaname || '' @ quoted ''.'' @ '' || tablename)) as size'',
      ''    FROM pg_tables '',
      ''    WHERE schemaname = '' @ quoted ''public'']"

fun reduceTableSizes ::
  "jsval list \<Rightarrow> (string \<times> jsval option) list \<Rightarrow> exn + (string \<times> jsval option) list" where
  "reduceTableSizes [] acc = Inr acc"
| "reduceTableSizes (row # rows) acc =
     (case rowField row ''tablename'' of
        Inl e \<Rightarrow> Inl e
      | Inr nm \<Rightarrow>
         (case rowField row ''size'' of
            Inl e \<Rightarrow> Inl e
          | Inr sz \<Rightarrow> reduceTableSizes rows ((tmpl nm, sz) # acc)))"

text \<open>\<open>cacheHit[0]?.ratio\<close>\<close>

fun optionalRatio :: "jsval list \<Rightarrow> jsval option" where
  "optionalRatio [] = None"
| "optionalRatio (r # rs) = (case rowField r ''ratio'' of Inl e \<Rightarrow> None | Inr v \<Rightarrow> v)"

definition getMetrics :: "env \<Rightarrow> metrics io" where
  "getMetrics E =
     bind (db_query E ''SELECT count(*) FROM pg_stat_activity'' []) (\<lambda>connectionRows.
     bind (db_query E (''SELECT count(*) FROM pg_stat_activity WHERE state = '' @ quoted ''active'') [])
       (\<lambda>activeRows.
     bind (db_query E rawStatsSql []) (\<lambda>rawStats.
     bind (db_query E cacheHitSql []) (\<lambda>cacheHit.
     bind (db_query E tableSizesSql []) (\<lambda>sizeRows.
     bind (liftE (firstField connectionRows ''count'')) (\<lambda>c.
     bind (liftE (firstField activeRows ''count'')) (\<lambda>a.
     bind (liftE (reduceTableSizes sizeRows [])) (\<lambda>sizes.
       ret \<lparr>connections = c, activeQueries = a, cacheHitRatio = optionalRatio cacheHit,
            tableSizes = sizes\<rparr>))))))))"

definition generateRecommendations ::
  "env \<Rightarrow> numerics \<Rightarrow> string \<Rightarrow> (string \<times> jsval option) list \<Rightarrow> metrics \<Rightarrow> string list io" where
  "generateRecommendations E N type settings m =
     (let general =
            (if type = ''configuration'' \<or> type = ''performance'' then
               (if cacheHitBelow99 N (cacheHitRatio m)
                then [''Consider increasing shared_buffers to improve cache hit ratio''] else [])
               @ (if connectionsAbove80 N (connections m)
                       (case map_of settings ''max_connections'' of None \<Rightarrow> None | Some v \<Rightarrow> v)
                  then [''High connection usage detected. Consider increasing max_connections or implementing connection pooling'']
                  else [])
             else [])
      in if type = ''security'' then
           bind (db_query E ''SELECT count(*) FROM pg_user WHERE usesuper = true'' []) (\<lambda>superusers.
           bind (liftE (firstField superusers ''count'')) (\<lambda>n.
           bind (db_query E ''SHOW ssl'' []) (\<lambda>ssl.
           bind (liftE (firstField ssl ''ssl'')) (\<lambda>v.
             ret (general
                  @ (if countAboveOne N n
                     then [''Multiple superuser accounts detected. Review and reduce if possible'']
                     else [])
                  @ (if v \<noteq> Some (JStr ''on'')
                     then [''SSL is not enabled. Consider enabling SSL for secure connections'']
                     else []))))))
         else ret general)"

text \<open>\<open>analyzeDatabase\<close>: the \<open>connect\<close> comes before the \<open>try\<close>.\<close>

definition analyzeDatabase :: "env \<Rightarrow> numerics \<Rightarrow> jsval \<Rightarrow> string \<Rightarrow> AnalysisResult io" where
  "analyzeDatabase E N connectionString analysisType =
     bind (db_connect E connectionString) (\<lambda>_.
       tryFinally
         (bind (getVersion E) (\<lambda>v.
          bind (getSettings E) (\<lambda>s.
          bind (getMetrics E) (\<lambda>m.
          bind (generateRecommendations E N analysisType s m) (\<lambda>r.
            ret \<lparr>version = v, settingsOfDb = s, metricsOfDb = m, recommendations = r\<rparr>)))))
         (db_disconnect E))"

definition analysisTypes :: "string list" where
  "analysisTypes = [''configuration'', ''performance'', ''security'']"

definition analysisTypeError :: string where
  "analysisTypeError =
     ''Error: analysisType is required and must be one of ['' @ quoted ''configuration'' @ '', ''
       @ quoted ''performance'' @ '', '' @ quoted ''security'' @ ''].''"

definition analyzeDatabaseTool :: "env \<Rightarrow> numerics \<Rightarrow> dbop list PostgresTool" where
  "analyzeDatabaseTool E N =
     \<lparr>name = ''pg_analyze_database'',
      description = ''Analyze PostgreSQL database configuration and performance'',
      inputSchema = [optConnectionString, (''analysisType'', ZOptional (ZEnum analysisTypes))],
      execute = (\<lambda>arguments getConnectionString.
        case arguments of
          None \<Rightarrow> throw destructureError
        | Some a \<Rightarrow>
           (let analysisType = getProp a ''analysisType'' in
            if \<not> truthyO analysisType \<or> analysisType \<notin> set (map (\<lambda>t. Some (JStr t)) analysisTypes)
            then ret (errOutput analysisTypeError)
            else
              (case getConnectionString (getProp a ''connectionString'') of
                 Inl e \<Rightarrow> throw e
               | Inr resolvedConnString \<Rightarrow>
                  bind (analyzeDatabase E N resolvedConnString (tmpl analysisType)) (\<lambda>result.
                    ret (okOutput (renderAnalysis N result))))))\<rparr>"

section \<open>The registry assembled in index.ts\<close>

text \<open>
  \<open>allTools\<close> lists twenty-five descriptors. The first ten are defined in
  tools/analyze.ts and tools/functions.ts; the other fifteen come from the debug, enums,
  migration, monitor, schema, setup and triggers modules and are the parameter
  \<open>others\<close>, in the order of the array.
\<close>

definition allTools :: "env \<Rightarrow> numerics \<Rightarrow> dbop list PostgresTool list \<Rightarrow> dbop list PostgresTool list" where
  "allTools E N others =
     [analyzeDatabaseTool E N,
      getFunctionsTool E,
      createFunctionTool E,
      dropFunctionTool E,
      enableRLSTool E,
      disableRLSTool E,
      createRLSPolicyTool E,
      dropRLSPolicyTool E,
      editRLSPolicyTool E,
      getRLSPoliciesTool E] @ others"

section \<open>Notions used in the statements\<close>

text \<open>The text an envelope carries.\<close>

definition outText :: "ToolOutput \<Rightarrow> string" where
  "outText out = concat (map blockText (content out))"




text \<open>The tools of tools/functions.ts, all of which resolve the connection string first.\<close>

definition functionsTools :: "env \<Rightarrow> dbop list PostgresTool list" where
  "functionsTools E =
     [getFunctionsTool E, createFunctionTool E, dropFunctionTool E, enableRLSTool E,
      disableRLSTool E, createRLSPolicyTool E, dropRLSPolicyTool E, editRLSPolicyTool E,
      getRLSPoliciesTool E, manageFunctionsTool E, manageRLSTool E]"


definition manageRLSRequired :: "string \<Rightarrow> string list" where
  "manageRLSRequired operation =
     (if operation = ''enable'' \<or> operation = ''disable'' then [''tableName'']
      else if operation = ''create_policy'' then [''tableName'', ''policyName'', ''using'']
      else if operation = ''edit_policy'' \<or> operation = ''drop_policy''
           then [''tableName'', ''policyName'']
      else [])"

definition missingOf :: "(string \<times> jsval) list \<Rightarrow> string list \<Rightarrow> string list" where
  "missingOf a required = filter (\<lambda>f. \<not> truthyO (getProp a f)) required"


text \<open>
  The shape of the calls one operation adds to the history: one \<open>connect\<close> with the
  given connection string, then queries only, then one \<open>disconnect\<close> as the last call.
\<close>

fun isQuery :: "dbop \<Rightarrow> bool" where
  "isQuery (Query sql params) = True"
| "isQuery other = False"

definition connectUseDisconnect :: "jsval \<Rightarrow> dbop list \<Rightarrow> bool" where
  "connectUseDisconnect cs ops =
     (case ops of
        [] \<Rightarrow> False
      | first # rest \<Rightarrow>
          first = Connect cs \<and> rest \<noteq> [] \<and> last rest = Disconnect
            \<and> list_all isQuery (butlast rest))"

definition added :: "dbop list \<Rightarrow> dbop list \<Rightarrow> dbop list" where
  "added before after = drop (length before) after"

section \<open>An environment and settings to evaluate the model on\<close>

text \<open>
  A reachable server that answers every query with no rows, the SDK's message format,
  and a compact JSON rendering used for both calls of \<open>JSON.stringify\<close>.
\<close>

definition escapeJson :: "string \<Rightarrow> string" where
  "escapeJson s = concat (map (\<lambda>c. if c = CHR 0x22 \<or> c = CHR 0x5C then [CHR 0x5C, c] else [c]) s)"

fun jsonText :: "jsval \<Rightarrow> string" where
  "jsonText JNull = ''null''"
| "jsonText (JBool b) = (if b then ''true'' else ''false'')"
| "jsonText (JNum n) = showInt n"
| "jsonText (JStr s) = dq @ escapeJson s @ dq"
| "jsonText (JArr xs) = ''['' @ join '','' (map jsonText xs) @ '']''"
| "jsonText (JObj ps) =
     ''{'' @ join '','' (map (\<lambda>p. dq @ escapeJson (fst p) @ dq @ '':'' @ jsonText (snd p)) ps) @ ''}''"

definition sampleEnv :: env where
  "sampleEnv =
     \<lparr>mcpMessage = sdkMessage,
      connectOutcome = (\<lambda>tr cs. None),
      queryOutcome = (\<lambda>tr sql params. Inr []),
      disconnectOutcome = (\<lambda>tr. None),
      stringify = jsonText,
      stringifyPretty = jsonText\<rparr>"

definition noSettings :: settings where
  "noSettings =
     \<lparr>cliConnectionString = None, cliToolsConfig = None, envConnectionString = None\<rparr>"


text \<open>The enablement file \<open>{"enabledTools": [...]}\<close> with the given names.\<close>

definition enablementFile :: "string list \<Rightarrow> jsval" where
  "enablementFile names = JObj [(''enabledTools'', JArr (map JStr names))]"

definition fileSettings :: settings where
  "fileSettings =
     \<lparr>cliConnectionString = None, cliToolsConfig = Some ''tools.json'',
      envConnectionString = None\<rparr>"

definition noFile :: "string \<Rightarrow> string + jsval" where
  "noFile path = Inl ''ENOENT: no such file or directory''"



text \<open>
  An operation is scoped when it leaves the earlier history as it was and adds one
  connect, queries and a final disconnect.
\<close>

definition scoped :: "jsval \<Rightarrow> dbop list \<Rightarrow> dbop list \<Rightarrow> bool" where
  "scoped cs before after =
     (take (length before) after = before \<and> connectUseDisconnect cs (added before after))"

text \<open>A step that, from any history, adds nothing but queries.\<close>

definition onlyQueries :: "'a io \<Rightarrow> bool" where
  "onlyQueries m = (\<forall>tr. \<exists>qs. snd (m tr) = tr @ qs \<and> list_all isQuery qs)"

text \<open>An unreachable server, and stand-ins for the arithmetic of the analysis.\<close>

definition unreachableEnv :: env where
  "unreachableEnv = sampleEnv\<lparr>connectOutcome := (\<lambda>tr cs. Some (Error ''connect ECONNREFUSED''))\<rparr>"

definition sampleNumerics :: numerics where
  "sampleNumerics =
     \<lparr>cacheHitBelow99 = (\<lambda>v. True), connectionsAbove80 = (\<lambda>c m. False),
      countAboveOne = (\<lambda>v. False), renderAnalysis = (\<lambda>r. ''{}'')\<rparr>"

section \<open>The dispatcher\<close>



lemma callTool_undefined:
  "\<not> truthyLooked (lookupTool (enabledToolsMap s) n) \<Longrightarrow>
     callTool mm st s n a w =
       (errOutput (''Error: '' @ mm MethodNotFound
          (if list_ex (\<lambda>t. name t = n) (availableToolsList s) then notEnabledText n else notExistText n)), w)"
  by (simp add: callTool_def handlerBody_def errOutput_def)

lemma callTool_other:
  "lookupTool (enabledToolsMap s) n = OtherValue True \<Longrightarrow>
     callTool mm st s n a w = (errOutput ''Error: tool.execute is not a function'', w)"
  by (simp add: callTool_def handlerBody_def errOutput_def)

lemma startServer_fields:
  "availableToolsList (startServer rj st R) = R"
  "enabledTools (startServer rj st R) = fst (selectTools rj st R)"
  "enabledToolsMap (startServer rj st R) = buildMap (fst (selectTools rj st R))"
  by (simp_all add: startServer_def run_def newServer_def loadAndFilterTools_def Let_def split_def)

lemma tool_names [simp]:
  "name (analyzeDatabaseTool E N) = ''pg_analyze_database''"
  "name (getFunctionsTool E) = ''pg_get_functions''"
  "name (createFunctionTool E) = ''pg_create_function''"
  "name (dropFunctionTool E) = ''pg_drop_function''"
  "name (enableRLSTool E) = ''pg_enable_rls''"
  "name (disableRLSTool E) = ''pg_disable_rls''"
  "name (createRLSPolicyTool E) = ''pg_create_rls_policy''"
  "name (dropRLSPolicyTool E) = ''pg_drop_rls_policy''"
  "name (editRLSPolicyTool E) = ''pg_edit_rls_policy''"
  "name (getRLSPoliciesTool E) = ''pg_get_rls_policies''"
  "name (manageFunctionsTool E) = ''pg_manage_functions''"
  "name (manageRLSTool E) = ''pg_manage_rls''"
  by (simp_all add: analyzeDatabaseTool_def getFunctionsTool_def createFunctionTool_def
        dropFunctionTool_def enableRLSTool_def disableRLSTool_def createRLSPolicyTool_def
        dropRLSPolicyTool_def editRLSPolicyTool_def getRLSPoliciesTool_def
        manageFunctionsTool_def manageRLSTool_def)

lemma enabledToolsOf_file: "enabledToolsOf (enablementFile L) = Some L"
proof -
  have "list_all isJStr (map JStr L)" by (induction L) simp_all
  moreover have "map jsString (map JStr L) = L" by (induction L) simp_all
  ultimately show ?thesis by (simp add: enablementFile_def getProp_def)
qed

lemma selectTools_file:
  assumes "cliToolsConfig st = Some path" "path \<noteq> []" "readJson path = Inr (enablementFile L)"
  shows "selectTools readJson st R =
           (filter (\<lambda>t. name t \<in> set L) R,
            ConsoleError (infoLoaded path (filter (\<lambda>t. name t \<in> set L) R))
              # map (\<lambda>n. ConsoleWarn (warnNotFound n))
                    (filter (\<lambda>n. n \<notin> name ` set R) (setOrder L)))"
proof -
  have "(\<lambda>requestedName. \<not> list_ex (\<lambda>tool. name tool = requestedName) R) = (\<lambda>n. n \<notin> name ` set R)"
    by (auto simp: list_ex_iff)
  with assms show ?thesis
    by (simp add: selectTools_def enabledToolsOf_file Let_def)
qed

lemma selectTools_none: "cliToolsConfig st = None \<Longrightarrow> fst (selectTools readJson st R) = R"
  by (simp add: selectTools_def)

lemma newServer_logs: "snd (newServer rj st R) = snd (selectTools rj st R)"
  by (simp add: newServer_def loadAndFilterTools_def split_def Let_def)

lemma setOrder_set: "set (setOrder L) = set L" "distinct (setOrder L)"
  by (simp_all add: setOrder_def)

lemma own_unchanged:
  "k \<notin> set (map name ts) \<Longrightarrow> map_of (own (foldl assign acc ts)) k = map_of (own acc) k"
proof (induction ts arbitrary: acc)
  case Nil
  then show ?case by simp
next
  case (Cons t ts)
  then have "map_of (own (foldl assign (assign acc t) ts)) k = map_of (own (assign acc t)) k"
    by simp
  moreover from Cons.prems have "map_of (own (assign acc t)) k = map_of (own acc) k"
    by (auto simp: assign_def)
  ultimately show ?case by simp
qed

lemma lookup_toString:
  assumes "''toString'' \<notin> set (map name ts)"
  shows "lookupTool (buildMap ts) ''toString'' = OtherValue True"
proof -
  have "map_of (own (buildMap ts)) ''toString'' = None"
    using own_unchanged [OF assms, of emptyMap] by (simp add: buildMap_def emptyMap_def)
  then show ?thesis
    by (simp add: lookupTool_def inherited_def objectPrototypeKeys_def split: option.splits)
qed



lemma showInt_codes: "showInt (- 32602) = ''-32602''" "showInt (- 32601) = ''-32601''"
  by (simp_all add: showInt_def showNat.simps [of 32602] showNat.simps [of 3260]
        showNat.simps [of 32601] showNat.simps [of 326] showNat.simps [of 32] showNat.simps [of 3])

lemma sdkMessage_codes:
  "sdkMessage InvalidParams m = ''MCP error -32602: '' @ m"
  "sdkMessage MethodNotFound m = ''MCP error -32601: '' @ m"
  by (simp_all add: sdkMessage_def showInt_codes)


lemma not_found_texts_differ: "notEnabledText n \<noteq> notExistText n"
  by (simp add: notEnabledText_def notExistText_def dq_def sq_def)

lemma callTool_disabled:
  assumes "lookupTool (enabledToolsMap s) n = Undefined"
      and "list_ex (\<lambda>t. name t = n) (availableToolsList s)"
  shows "callTool mm st s n a w
           = (errOutput (''Error: '' @ mm MethodNotFound (notEnabledText n)), w)"
  using assms by (simp add: callTool_undefined)

lemma callTool_unknown:
  assumes "lookupTool (enabledToolsMap s) n = Undefined"
      and "\<not> list_ex (\<lambda>t. name t = n) (availableToolsList s)"
  shows "callTool mm st s n a w
           = (errOutput (''Error: '' @ mm MethodNotFound (notExistText n)), w)"
  using assms by (simp add: callTool_undefined)

section \<open>The consolidated tools\<close>



lemma sublist_join: "x \<in> set xs \<Longrightarrow> sublist x (join sep xs)"
proof (induction sep xs rule: join.induct)
  case (1 sep)
  then show ?case by simp
next
  case (2 sep y)
  then show ?case by simp
next
  case (3 sep y z zs)
  show ?case
  proof (cases "x = y")
    case True
    then show ?thesis by (simp add: sublist_append)
  next
    case False
    with 3 have "sublist x (join sep (z # zs))" by simp
    then have "sublist x ((y @ sep) @ join sep (z # zs))" by (simp only: sublist_append) simp
    then show ?thesis by simp
  qed
qed











lemma outText_errOutput [simp]: "outText (errOutput t) = t" "isError (errOutput t) = Some True"
  "length (content (errOutput t)) = 1"
  by (simp_all add: outText_def errOutput_def)





lemma manageRLSRequired_other:
  "op \<notin> set [''enable'', ''disable'', ''create_policy'', ''edit_policy'', ''drop_policy'']
     \<Longrightarrow> manageRLSRequired op = []"
  by (simp add: manageRLSRequired_def)






lemma missingOf_Nil [simp]: "missingOf a [] = []"
  by (simp add: missingOf_def)



lemma manageRLSRequired_cases:
  "manageRLSRequired op = [] \<or> op = ''enable'' \<or> op = ''disable'' \<or> op = ''create_policy''
     \<or> op = ''edit_policy'' \<or> op = ''drop_policy''"
  unfolding manageRLSRequired_def by presburger









section \<open>Database calls of the operations\<close>

named_theorems oq

lemma oq_ret [oq]: "onlyQueries (ret v)"
  by (simp add: onlyQueries_def ret_def)

lemma oq_throw [oq]: "onlyQueries (throw e)"
  by (simp add: onlyQueries_def throw_def)

lemma oq_liftE [oq]: "onlyQueries (liftE r)"
  by (cases r) (simp_all add: liftE_def oq_ret oq_throw)

lemma oq_query [oq]: "onlyQueries (db_query E sql ps)"
  by (simp add: onlyQueries_def db_query_def)

lemma oq_bind [oq]:
  assumes "onlyQueries m" and "\<And>v. onlyQueries (f v)"
  shows "onlyQueries (bind m f)"
  unfolding onlyQueries_def
proof
  fix tr
  from assms(1) obtain qs where q: "snd (m tr) = tr @ qs" "list_all isQuery qs"
    unfolding onlyQueries_def by blast
  show "\<exists>qs. snd (bind m f tr) = tr @ qs \<and> list_all isQuery qs"
  proof (cases "m tr")
    case (Pair r tr1)
    with q have t1: "tr1 = tr @ qs" by simp
    show ?thesis
    proof (cases r)
      case (Inl e)
      with Pair q show ?thesis by (auto simp: bind_def)
    next
      case (Inr v)
      from assms(2) [of v] obtain qs2 where "snd (f v tr1) = tr1 @ qs2" "list_all isQuery qs2"
        unfolding onlyQueries_def by blast
      with Pair Inr t1 q show ?thesis by (auto simp: bind_def)
    qed
  qed
qed

lemma oq_if [oq]: "onlyQueries a \<Longrightarrow> onlyQueries b \<Longrightarrow> onlyQueries (if c then a else b)"
  by simp

lemma oq_option [oq]:
  "onlyQueries a \<Longrightarrow> (\<And>x. onlyQueries (b x)) \<Longrightarrow> onlyQueries (case v of None \<Rightarrow> a | Some x \<Rightarrow> b x)"
  by (cases v) simp_all

lemma oq_sum [oq]:
  "(\<And>x. onlyQueries (a x)) \<Longrightarrow> (\<And>x. onlyQueries (b x)) \<Longrightarrow> onlyQueries (case v of Inl x \<Rightarrow> a x | Inr x \<Rightarrow> b x)"
  by (cases v) simp_all

lemma scoped_intro:
  "list_all isQuery qs \<Longrightarrow> scoped cs tr (tr @ Connect cs # qs @ [Disconnect])"
  by (simp add: scoped_def added_def connectUseDisconnect_def)

lemma disconnect_snd: "snd (db_disconnect E tr) = tr @ [Disconnect]"
  by (simp add: db_disconnect_def split: option.splits)

lemma failed_snd: "snd (failed E s e tr) = tr"
  by (simp add: failed_def ret_def)

lemma tcf_snd:
  "snd (tryCatchFinally body (failed E s) (db_disconnect E) tr) = snd (body tr) @ [Disconnect]"
  by (cases "body tr")
     (auto simp: tryCatchFinally_def failed_def ret_def db_disconnect_def
           split: sum.splits option.splits prod.splits)

lemma connect_bind_snd:
  assumes "onlyQueries body"
  shows "\<exists>qs. snd (bind (db_connect E cs) (\<lambda>_. body) tr) = tr @ Connect cs # qs \<and> list_all isQuery qs"
proof (cases "connectOutcome E tr cs")
  case None
  from assms obtain qs where "snd (body (tr @ [Connect cs])) = (tr @ [Connect cs]) @ qs" "list_all isQuery qs"
    unfolding onlyQueries_def by blast
  with None show ?thesis by (auto simp: bind_def db_connect_def)
next
  case (Some e)
  then show ?thesis by (auto simp: bind_def db_connect_def)
qed

lemma tcf_scoped:
  assumes "onlyQueries body"
  shows "scoped cs tr (snd (tryCatchFinally (bind (db_connect E cs) (\<lambda>_. body)) (failed E s)
                              (db_disconnect E) tr))"
proof -
  from connect_bind_snd [OF assms] obtain qs where
    "snd (bind (db_connect E cs) (\<lambda>_. body) tr) = tr @ Connect cs # qs" "list_all isQuery qs"
    by blast
  then show ?thesis using scoped_intro [of qs cs tr] by (simp add: tcf_snd)
qed

lemma u_getFunctions_scoped: "scoped cs tr (snd (u_getFunctions E cs fn sch tr))"
  unfolding u_getFunctions_def Let_def by (rule tcf_scoped) (intro oq)

lemma u_createFunction_scoped: "scoped cs tr (snd (u_createFunction E cs fn ps rt fb opts tr))"
  unfolding u_createFunction_def Let_def by (rule tcf_scoped) (intro oq)

lemma u_dropFunction_scoped: "scoped cs tr (snd (u_dropFunction E cs fn ps opts tr))"
  unfolding u_dropFunction_def Let_def by (rule tcf_scoped) (intro oq)

lemma u_enableRLS_scoped: "scoped cs tr (snd (u_enableRLS E cs tn sch tr))"
  unfolding u_enableRLS_def Let_def by (rule tcf_scoped) (intro oq)

lemma u_disableRLS_scoped: "scoped cs tr (snd (u_disableRLS E cs tn sch tr))"
  unfolding u_disableRLS_def Let_def by (rule tcf_scoped) (intro oq)

lemma u_createRLSPolicy_scoped: "scoped cs tr (snd (u_createRLSPolicy E cs tn pn us ch opts tr))"
  unfolding u_createRLSPolicy_def Let_def by (rule tcf_scoped) (intro oq)

lemma u_dropRLSPolicy_scoped: "scoped cs tr (snd (u_dropRLSPolicy E cs tn pn opts tr))"
  unfolding u_dropRLSPolicy_def Let_def by (rule tcf_scoped) (intro oq)

lemma u_editRLSPolicy_scoped: "scoped cs tr (snd (u_editRLSPolicy E cs tn pn opts tr))"
  unfolding u_editRLSPolicy_def Let_def by (rule tcf_scoped) (intro oq)

lemma u_getRLSPolicies_scoped: "scoped cs tr (snd (u_getRLSPolicies E cs tn sch tr))"
  unfolding u_getRLSPolicies_def Let_def by (rule tcf_scoped) (intro oq)

lemma setDatabaseComment_scoped:
  "scoped (JStr cs) tr (snd (setDatabaseComment E cs ty nm c opts tr))"
  unfolding setDatabaseComment_def Let_def by (rule tcf_scoped) (intro oq)

lemma getDatabaseComment_scoped:
  "scoped (JStr cs) tr (snd (getDatabaseComment E cs ty nm opts tr))"
  unfolding getDatabaseComment_def Let_def by (rule tcf_scoped) (intro oq)






lemma analyzeDatabase_unreachable:
  "connectOutcome E tr cs = Some e \<Longrightarrow> analyzeDatabase E N cs ty tr = (Inl e, tr @ [Connect cs])"
  by (simp add: analyzeDatabase_def bind_def db_connect_def)


lemma bind_pure_snd: "(\<And>v tr. snd (f v tr) = tr) \<Longrightarrow> snd (bind m f tr) = snd (m tr)"
  by (cases "m tr") (auto simp: bind_def split: sum.splits)


lemma ret_snd [simp]: "snd (ret v tr) = tr"
  by (simp add: ret_def)

lemma executingError_snd [simp]: "snd (executingError E operation e tr) = tr"
  by (simp add: executingError_def)

lemma wrap_snd [simp]:
  "snd (bind m (\<lambda>result. ret (f result)) tr) = snd (m tr)"
  "snd (bind m (\<lambda>result. if c result then ret (f result) else ret (g result)) tr) = snd (m tr)"
  by (rule bind_pure_snd, simp)+













lemma getDatabaseComment_calls:
  "snd (getDatabaseComment E cs ty nm opts tr) =
     tr @ [Connect (JStr cs)]
       @ (case connectOutcome E tr (JStr cs) of
            Some e \<Rightarrow> []
          | None \<Rightarrow>
             (case getCommentSql ty nm (strOr (o_schema opts) ''public'') opts of
                Inl e \<Rightarrow> []
              | Inr sql \<Rightarrow> [Query sql []]))
       @ [Disconnect]"
  by (simp add: getDatabaseComment_def tcf_snd bind_def db_connect_def db_query_def liftE_def
        throw_def ret_def Let_def split: option.splits sum.splits)






lemma sublist_quoted: "sublist v (p @ quoted v)"
proof -
  have "p @ quoted v = (p @ sq) @ v @ sq" by (simp add: quoted_def)
  then show ?thesis unfolding sublist_def by blast
qed

lemma sublist_join_elem: "sublist v x \<Longrightarrow> x \<in> set xs \<Longrightarrow> sublist v (join sep xs)"
  using sublist_join [of x xs sep] sublist_order.order_trans by blast

lemma indexSql_holds_values:
  "sublist objectName (indexSql schema objectName)"
  "sublist schema (indexSql schema objectName)"
  unfolding indexSql_def
  by (rule sublist_join_elem [OF sublist_quoted [where p = "''          WHERE idx.relname = ''"]],
      simp,
      rule sublist_join_elem [OF sublist_quoted [where p = "''          AND pg_namespace.nspname = ''"]],
      simp)

lemma getFunctions_binds_values:
  "connectOutcome E tr cs = None \<Longrightarrow>
   snd (u_getFunctions E cs functionName schema tr)
     = tr @ [Connect cs,
             Query (getFunctionsSql
                      @ (if truthyO functionName then '' AND p.proname = $2'' else [])
                      @ '' ORDER BY p.proname'')
                   ([paramDefault schema ''public'']
                      @ (if truthyO functionName then [the functionName] else [])),
             Disconnect]"
  by (simp add: u_getFunctions_def tcf_snd bind_def db_connect_def db_query_def Let_def
        split: sum.splits)

section \<open>The claims about the dispatcher and the registry\<close>



text \<open>
  Claim C2, evaluated where it fails. The enabled tools are looked up in a plain object,
  so a name that \<open>Object.prototype\<close> defines finds an inherited member although no
  tool of the registry carries it: for every registry without a tool named \<open>toString\<close>,
  the test \<open>!tool\<close> does not fire on that name, \<open>tool.execute\<close> is not callable, and
  the caller receives the runtime's \<open>TypeError\<close> text instead of the tool-not-found
  message. The envelope is still an error and no tool runs.
\<close>

theorem inherited_name_is_not_reported_missing:
  "(''toString'' \<notin> set (map name R)
      \<longrightarrow> callTool mm st (startServer noFile noSettings R) ''toString'' a w
            = (errOutput ''Error: tool.execute is not a function'', w))
   \<and> ''Error: tool.execute is not a function''
       \<noteq> ''Error: '' @ sdkMessage MethodNotFound (notExistText ''toString'')"
proof (intro conjI impI)
  assume "''toString'' \<notin> set (map name R)"
  then have "lookupTool (buildMap R) ''toString'' = OtherValue True"
    by (rule lookup_toString)
  then show "callTool mm st (startServer noFile noSettings R) ''toString'' a w
       = (errOutput ''Error: tool.execute is not a function'', w)"
    by (simp add: callTool_other startServer_fields selectTools_none noSettings_def)
next
  show "''Error: tool.execute is not a function''
       \<noteq> ''Error: '' @ sdkMessage MethodNotFound (notExistText ''toString'')"
    by (simp add: sdkMessage_codes)
qed

theorem inherited_name_is_not_reported_missing_witness:
  "''toString'' \<notin> set (map name (allTools sampleEnv sampleNumerics []))
   \<and> callTool sdkMessage noSettings
        (startServer noFile noSettings (allTools sampleEnv sampleNumerics [])) ''toString''
        (Some []) []
      = (errOutput ''Error: tool.execute is not a function'', [])"
proof -
  have n: "''toString'' \<notin> set (map name (allTools sampleEnv sampleNumerics []))"
    by (simp add: allTools_def)
  from inherited_name_is_not_reported_missing
         [where R = "allTools sampleEnv sampleNumerics []" and mm = sdkMessage
            and st = noSettings and a = "Some []" and w = "[]"] n
  show ?thesis by blast
qed

text \<open>
  Claim C3. With an enablement file holding the allow-list \<open>L\<close>, the enabled tools
  after start-up are the registry filtered by membership of the name in \<open>L\<close>, in
  registry order; the console receives one information line and one warning for each
  distinct name of \<open>L\<close> that the registry lacks, and start-up completes with the
  registry untouched. Without an enablement file the enabled tools are the registry.
\<close>

theorem enabled_set_is_filtered_registry:
  "(cliToolsConfig st = Some path \<and> path \<noteq> [] \<and> readJson path = Inr (enablementFile L)
      \<longrightarrow> enabledTools (startServer readJson st R) = filter (\<lambda>t. name t \<in> set L) R
        \<and> subseq (enabledTools (startServer readJson st R)) R
        \<and> availableToolsList (startServer readJson st R) = R
        \<and> snd (newServer readJson st R)
            = ConsoleError (infoLoaded path (filter (\<lambda>t. name t \<in> set L) R))
                # map (\<lambda>n. ConsoleWarn (warnNotFound n))
                      (filter (\<lambda>n. n \<notin> name ` set R) (setOrder L))
        \<and> set (filter (\<lambda>n. n \<notin> name ` set R) (setOrder L)) = set L - name ` set R)
   \<and> (cliToolsConfig st = None \<longrightarrow> enabledTools (startServer readJson st R) = R)"
proof (intro conjI impI)
  assume a: "cliToolsConfig st = Some path \<and> path \<noteq> [] \<and> readJson path = Inr (enablementFile L)"
  then have sel: "selectTools readJson st R =
           (filter (\<lambda>t. name t \<in> set L) R,
            ConsoleError (infoLoaded path (filter (\<lambda>t. name t \<in> set L) R))
              # map (\<lambda>n. ConsoleWarn (warnNotFound n))
                    (filter (\<lambda>n. n \<notin> name ` set R) (setOrder L)))"
    by (intro selectTools_file) simp_all
  show "enabledTools (startServer readJson st R) = filter (\<lambda>t. name t \<in> set L) R"
    by (simp add: startServer_fields sel)
  then show "subseq (enabledTools (startServer readJson st R)) R" by simp
  show "availableToolsList (startServer readJson st R) = R" by (simp add: startServer_fields)
  show "snd (newServer readJson st R)
            = ConsoleError (infoLoaded path (filter (\<lambda>t. name t \<in> set L) R))
                # map (\<lambda>n. ConsoleWarn (warnNotFound n))
                      (filter (\<lambda>n. n \<notin> name ` set R) (setOrder L))"
    by (simp add: newServer_logs sel)
  show "set (filter (\<lambda>n. n \<notin> name ` set R) (setOrder L)) = set L - name ` set R"
    by (auto simp: setOrder_set)
next
  assume "cliToolsConfig st = None"
  then show "enabledTools (startServer readJson st R) = R"
    by (simp add: startServer_fields selectTools_none)
qed

theorem enabled_set_is_filtered_registry_witness:
  "map name (enabledTools
      (startServer (\<lambda>path. Inr (enablementFile [''pg_manage_rls'', ''pg_absent'', ''pg_get_functions'', ''pg_absent'']))
         fileSettings (functionsTools sampleEnv)))
     = [''pg_get_functions'', ''pg_manage_rls'']
   \<and> snd (newServer (\<lambda>path. Inr (enablementFile [''pg_manage_rls'', ''pg_absent'', ''pg_get_functions'', ''pg_absent'']))
         fileSettings (functionsTools sampleEnv))
     = [ConsoleError ''[MCP Info] Loaded tools configuration from tools.json. Enabled tools: pg_get_functions, pg_manage_rls'',
        ConsoleWarn (warnNotFound ''pg_absent'')]
   \<and> enabledTools (startServer noFile noSettings (functionsTools sampleEnv)) = functionsTools sampleEnv"
proof -
  let ?L = "[''pg_manage_rls'', ''pg_absent'', ''pg_get_functions'', ''pg_absent'']"
  have f: "cliToolsConfig fileSettings = Some ''tools.json''" by (simp add: fileSettings_def)
  have n: "cliToolsConfig noSettings = None" by (simp add: noSettings_def)
  from enabled_set_is_filtered_registry
         [where st = fileSettings and path = "''tools.json''"
            and readJson = "\<lambda>path. Inr (enablementFile ?L)" and L = ?L
            and R = "functionsTools sampleEnv"]
       enabled_set_is_filtered_registry
         [where st = noSettings and readJson = noFile and R = "functionsTools sampleEnv"]
       f n
  show ?thesis
    by (simp add: functionsTools_def setOrder_def infoLoaded_def)
qed

text \<open>
  Claim C4, evaluated where it fails. With the allow-list \<open>["pg_manage_functions"]\<close>
  and the array \<open>allTools\<close> of index.ts, none of the ten descriptors of
  tools/analyze.ts and tools/functions.ts that the array holds is listed: the array does
  not contain \<open>manageFunctionsTool\<close>, and what is listed is whatever the remaining
  modules contribute under that name.
\<close>

theorem registry_lacks_manage_functions:
  "listTools toJson
     (startServer (\<lambda>path. Inr (enablementFile [''pg_manage_functions''])) fileSettings
        (allTools E N others))
   = map (\<lambda>tool. \<lparr>d_name = name tool, d_description = description tool,
                    d_inputSchema = toJson (inputSchema tool)\<rparr>)
         (filter (\<lambda>tool. name tool = ''pg_manage_functions'') others)"
proof -
  have "selectTools (\<lambda>path. Inr (enablementFile [''pg_manage_functions''])) fileSettings (allTools E N others)
        = (filter (\<lambda>t. name t \<in> set [''pg_manage_functions'']) (allTools E N others),
            ConsoleError (infoLoaded ''tools.json'' (filter (\<lambda>t. name t \<in> set [''pg_manage_functions'']) (allTools E N others)))
              # map (\<lambda>n. ConsoleWarn (warnNotFound n))
                    (filter (\<lambda>n. n \<notin> name ` set (allTools E N others)) (setOrder [''pg_manage_functions''])))"
    by (rule selectTools_file) (simp_all add: fileSettings_def)
  then show ?thesis
    by (simp add: listTools_def startServer_fields allTools_def)
qed

section \<open>The claims about the consolidated tools\<close>







section \<open>The claims about connections and statements\<close>



text \<open>
  Claim C8, evaluated where it fails. \<open>getDatabaseComment\<close> places the object name
  and the schema the caller gave between quotes inside the statement and passes no
  bindings, whereas \<open>_getFunctions\<close> and \<open>_getRLSPolicies\<close> bind the same kind of
  filter values as \<open>$1\<close> and \<open>$2\<close>.
\<close>

theorem comment_lookup_interpolates_values:
  "snd (getDatabaseComment sampleEnv cs ''index'' objectName
          \<lparr>o_schema = Some (c # schema), o_parentObject = None, o_parameters = None\<rparr> tr)
     = tr @ [Connect (JStr cs), Query (indexSql (c # schema) objectName) [], Disconnect]
   \<and> sublist objectName (indexSql (c # schema) objectName)
   \<and> sublist (c # schema) (indexSql (c # schema) objectName)"
proof (intro conjI)
  show "snd (getDatabaseComment sampleEnv cs ''index'' objectName
          \<lparr>o_schema = Some (c # schema), o_parentObject = None, o_parameters = None\<rparr> tr)
     = tr @ [Connect (JStr cs), Query (indexSql (c # schema) objectName) [], Disconnect]"
    by (simp add: getDatabaseComment_calls sampleEnv_def getCommentSql_def strOr_def given_def)
  show "sublist objectName (indexSql (c # schema) objectName)"
    by (rule indexSql_holds_values)
  show "sublist (c # schema) (indexSql (c # schema) objectName)"
    by (rule indexSql_holds_values)
qed

text \<open>
  Claim C9, evaluated where it fails. \<open>analyzeDatabase\<close> awaits \<open>db.connect\<close> before
  its \<open>try\<close>, so when the connect fails the \<open>finally\<close> is never entered: the failure
  is thrown with the \<open>connect\<close> as the only call made and no \<open>disconnect\<close> after it.
  On the same path each operation of tools/functions.ts and tools/comment.ts, whose
  \<open>connect\<close> is inside the \<open>try\<close>, still ends with a \<open>disconnect\<close>.
\<close>

theorem analysis_does_not_disconnect_after_failed_connect:
  "connectOutcome E tr cs = Some e \<longrightarrow>
     analyzeDatabase E N cs analysisType tr = (Inl e, tr @ [Connect cs])
     \<and> Disconnect \<notin> set (added tr (snd (analyzeDatabase E N cs analysisType tr)))
     \<and> \<not> scoped cs tr (snd (analyzeDatabase E N cs analysisType tr))
     \<and> scoped cs tr (snd (u_getFunctions E cs functionName schema tr))
     \<and> scoped cs tr (snd (u_createFunction E cs functionName parameters returnType functionBody opts tr))
     \<and> scoped cs tr (snd (u_dropFunction E cs functionName parameters opts tr))
     \<and> scoped cs tr (snd (u_enableRLS E cs tableName schema tr))
     \<and> scoped cs tr (snd (u_disableRLS E cs tableName schema tr))
     \<and> scoped cs tr (snd (u_createRLSPolicy E cs tableName policyName using check opts tr))
     \<and> scoped cs tr (snd (u_dropRLSPolicy E cs tableName policyName opts tr))
     \<and> scoped cs tr (snd (u_editRLSPolicy E cs tableName policyName opts tr))
     \<and> scoped cs tr (snd (u_getRLSPolicies E cs tableName schema tr))
     \<and> scoped (JStr c) tr (snd (setDatabaseComment E c objectType objectName comment copts tr))
     \<and> scoped (JStr c) tr (snd (removeDatabaseComment E c objectType objectName copts tr))
     \<and> scoped (JStr c) tr (snd (getDatabaseComment E c objectType objectName copts tr))"
proof (rule impI)
  assume f: "connectOutcome E tr cs = Some e"
  have r: "analyzeDatabase E N cs analysisType tr = (Inl e, tr @ [Connect cs])"
    using f by (rule analyzeDatabase_unreachable)
  have d: "Disconnect \<notin> set (added tr (snd (analyzeDatabase E N cs analysisType tr)))"
    unfolding r by (simp add: added_def)
  have n: "\<not> scoped cs tr (snd (analyzeDatabase E N cs analysisType tr))"
    unfolding r by (simp add: scoped_def connectUseDisconnect_def added_def)
  have s: "scoped (JStr c) tr (snd (removeDatabaseComment E c objectType objectName copts tr))"
    by (simp add: removeDatabaseComment_def setDatabaseComment_scoped)
  from r d n s show
    "analyzeDatabase E N cs analysisType tr = (Inl e, tr @ [Connect cs])
     \<and> Disconnect \<notin> set (added tr (snd (analyzeDatabase E N cs analysisType tr)))
     \<and> \<not> scoped cs tr (snd (analyzeDatabase E N cs analysisType tr))
     \<and> scoped cs tr (snd (u_getFunctions E cs functionName schema tr))
     \<and> scoped cs tr (snd (u_createFunction E cs functionName parameters returnType functionBody opts tr))
     \<and> scoped cs tr (snd (u_dropFunction E cs functionName parameters opts tr))
     \<and> scoped cs tr (snd (u_enableRLS E cs tableName schema tr))
     \<and> scoped cs tr (snd (u_disableRLS E cs tableName schema tr))
     \<and> scoped cs tr (snd (u_createRLSPolicy E cs tableName policyName using check opts tr))
     \<and> scoped cs tr (snd (u_dropRLSPolicy E cs tableName policyName opts tr))
     \<and> scoped cs tr (snd (u_editRLSPolicy E cs tableName policyName opts tr))
     \<and> scoped cs tr (snd (u_getRLSPolicies E cs tableName schema tr))
     \<and> scoped (JStr c) tr (snd (setDatabaseComment E c objectType objectName comment copts tr))
     \<and> scoped (JStr c) tr (snd (removeDatabaseComment E c objectType objectName copts tr))
     \<and> scoped (JStr c) tr (snd (getDatabaseComment E c objectType objectName copts tr))"
    by (intro conjI u_getFunctions_scoped u_createFunction_scoped u_dropFunction_scoped
          u_enableRLS_scoped u_disableRLS_scoped u_createRLSPolicy_scoped u_dropRLSPolicy_scoped
          u_editRLSPolicy_scoped u_getRLSPolicies_scoped setDatabaseComment_scoped
          getDatabaseComment_scoped)
qed

theorem analysis_does_not_disconnect_after_failed_connect_witness:
  "connectOutcome unreachableEnv [] (JStr ''postgresql://localhost/app'')
     = Some (Error ''connect ECONNREFUSED'')
   \<and> analyzeDatabase unreachableEnv sampleNumerics (JStr ''postgresql://localhost/app'')
         ''security'' []
       = (Inl (Error ''connect ECONNREFUSED''), [Connect (JStr ''postgresql://localhost/app'')])
   \<and> \<not> scoped (JStr ''postgresql://localhost/app'') []
        (snd (analyzeDatabase unreachableEnv sampleNumerics (JStr ''postgresql://localhost/app'')
                ''security'' []))
   \<and> scoped (JStr ''postgresql://localhost/app'') []
        (snd (u_getFunctions unreachableEnv (JStr ''postgresql://localhost/app'') None None []))
   \<and> snd (u_getFunctions unreachableEnv (JStr ''postgresql://localhost/app'') None None [])
       = [Connect (JStr ''postgresql://localhost/app''), Disconnect]
   \<and> callTool sdkMessage noSettings
        (startServer noFile noSettings (allTools unreachableEnv sampleNumerics []))
        ''pg_analyze_database''
        (Some [(''connectionString'', JStr ''postgresql://localhost/app''),
               (''analysisType'', JStr ''security'')]) []
      = (errOutput ''Error: connect ECONNREFUSED'',
         [Connect (JStr ''postgresql://localhost/app'')])"
proof -
  have b: "connectOutcome unreachableEnv [] (JStr ''postgresql://localhost/app'')
             = Some (Error ''connect ECONNREFUSED'')"
    by (simp add: unreachableEnv_def)
  have g: "snd (u_getFunctions unreachableEnv (JStr ''postgresql://localhost/app'') None None [])
       = [Connect (JStr ''postgresql://localhost/app''), Disconnect]"
    by (simp add: u_getFunctions_def Let_def tryCatchFinally_def db_connect_def db_disconnect_def
          unreachableEnv_def sampleEnv_def bind_def split_def failed_def throw_def ret_def)
  have k: "callTool sdkMessage noSettings
        (startServer noFile noSettings (allTools unreachableEnv sampleNumerics []))
        ''pg_analyze_database''
        (Some [(''connectionString'', JStr ''postgresql://localhost/app''),
               (''analysisType'', JStr ''security'')]) []
      = (errOutput ''Error: connect ECONNREFUSED'',
         [Connect (JStr ''postgresql://localhost/app'')])"
    by code_simp
  note t = analysis_does_not_disconnect_after_failed_connect
         [where E = unreachableEnv and N = sampleNumerics
            and cs = "JStr ''postgresql://localhost/app''" and tr = "[]"
            and e = "Error ''connect ECONNREFUSED''" and analysisType = "''security''"
            and functionName = None and schema = None, THEN mp, OF b]
  note r = t [THEN conjunct1, unfolded append_Nil]
  note n = t [THEN conjunct2, THEN conjunct2, THEN conjunct1]
  note s = t [THEN conjunct2, THEN conjunct2, THEN conjunct2, THEN conjunct1]
  show ?thesis
    by (intro conjI) (rule b r n s g k)+
qed



end
